theory Spec2Isabelle
  imports Main "HOL-Library.Char_ord" "HOL-Library.List_Lexorder" "HOL-Library.AList"
begin

unbundle bit_operations_syntax

text \<open>
  A shallow embedding of the versioned resource of package api (resource.go) and of the
  diagram renderer of package graphviz (graphviz.go). A method of \<^verbatim>\<open>*resource\<close>
  takes the resource and returns it as the call left it, beside the method's results; an
  \<^verbatim>\<open>error\<close> result is an option, \<open>None\<close> for nil. The definitions come first, each
  named after the Go declaration it embeds; the properties follow.
\<close>

section \<open>pkg/cloud/api/resource.go: the data model\<close>

text \<open>
  \<^verbatim>\<open>meta.Version\<close>: the three API versions a resource exists in. The switch of
  \<^verbatim>\<open>postAccess\<close> and every caller in resource.go use these three constants only.
\<close>

datatype Version = VersionGA | VersionAlpha | VersionBeta

text \<open>
  \<^verbatim>\<open>ConversionContext\<close>: the six directed conversions, in the order of the
  \<^verbatim>\<open>iota\<close> block (the sentinel \<^verbatim>\<open>conversionContextCount\<close> only sizes the array).
\<close>

datatype ConversionContext =
    GAToAlphaConversion
  | GAToBetaConversion
  | AlphaToGAConversion
  | AlphaToBetaConversion
  | BetaToGAConversion
  | BetaToAlphaConversion

text \<open>
  Modelled from the spec: \<^verbatim>\<open>Path\<close> is declared outside resource.go; the spec has it as an
  ordered sequence of navigation segments with structural equality.
\<close>

type_synonym Path = "string list"

text \<open>
  \<^verbatim>\<open>missingFieldOnCopy\<close> is what the copier collects (declared with the copier, outside
  resource.go; resource.go reads its fields \<^verbatim>\<open>Path\<close> and \<^verbatim>\<open>Value\<close>). The
  type \<open>'v\<close> stands for Go's \<^verbatim>\<open>any\<close>.
\<close>

record 'v missingFieldOnCopy =
  mfcPath :: Path
  mfcValue :: 'v

record 'v MissingField =
  Context :: ConversionContext
  Path :: Path
  Value :: 'v

record 'v ConversionError =
  MissingFields :: "'v MissingField list"

record 'v conversionErrors =
  missingFields :: "'v missingFieldOnCopy list"

text \<open>
  Go's \<^verbatim>\<open>error\<close> values that cross resource.go: the \<^verbatim>\<open>*ConversionError\<close> of the
  \<^verbatim>\<open>To*\<close> methods, the \<^verbatim>\<open>fmt.Errorf("indeterminant version (ga=%v, alpha=%v, beta=%v)")\<close>
  of \<^verbatim>\<open>ImpliedVersion\<close> (kept structured: its three arguments, \<open>None\<close> for nil), and the
  errors of the collaborators (copier, validation, hooks), known by their message.
\<close>

datatype 'v error =
    ConversionErr "'v ConversionError"
  | IndeterminantVersion "'v ConversionError option" "'v ConversionError option"
      "'v ConversionError option"
  | Err string

text \<open>
  \<^verbatim>\<open>TypeTrait\<close> (an interface declared outside resource.go): the per-version field traits
  and the six bridging hooks. A hook receives two pointers, to the destination and to the
  source, and may write through both: it returns the destination as it left it, the source
  as it left it, and its error (\<open>None\<close> for nil).
\<close>

record ('r, 'ft, 'v) TypeTrait =
  FieldTraits :: "Version \<Rightarrow> 'ft"
  CopyHelperGAtoAlpha :: "'r \<Rightarrow> 'r \<Rightarrow> 'r \<times> 'r \<times> 'v error option"
  CopyHelperGAtoBeta :: "'r \<Rightarrow> 'r \<Rightarrow> 'r \<times> 'r \<times> 'v error option"
  CopyHelperAlphaToGA :: "'r \<Rightarrow> 'r \<Rightarrow> 'r \<times> 'r \<times> 'v error option"
  CopyHelperAlphaToBeta :: "'r \<Rightarrow> 'r \<Rightarrow> 'r \<times> 'r \<times> 'v error option"
  CopyHelperBetaToGA :: "'r \<Rightarrow> 'r \<Rightarrow> 'r \<times> 'r \<times> 'v error option"
  CopyHelperBetaToAlpha :: "'r \<Rightarrow> 'r \<Rightarrow> 'r \<times> 'r \<times> 'v error option"

text \<open>
  \<^verbatim>\<open>cloud.ResourceID\<close> and \<^verbatim>\<open>meta.Key\<close>: resource.go reads
  \<^verbatim>\<open>resourceID.Key.Name\<close> only. Both are pointers, \<open>None\<close> is nil.
\<close>

record Key =
  Name :: string

record ResourceID =
  Key :: "Key option"

text \<open>
  The struct \<^verbatim>\<open>resource[GA, Alpha, Beta]\<close>. resource.go hands the three representations
  to its collaborators as \<^verbatim>\<open>reflect.Value\<close>; \<open>'r\<close> is that dynamically typed value.
  The array \<^verbatim>\<open>errors\<close> is indexed by \<^verbatim>\<open>ConversionContext\<close>.
\<close>

record ('r, 'opt, 'ft, 'v) resource =
  copierOptions :: "'opt list"
  typeTrait :: "('r, 'ft, 'v) TypeTrait"
  ga :: 'r
  alpha :: 'r
  beta :: 'r
  resourceID :: "ResourceID option"
  errors :: "ConversionContext \<Rightarrow> 'v conversionErrors"

section \<open>ToGA, ToAlpha, ToBeta\<close>

definition hasErr :: "'v ConversionError \<Rightarrow> bool" where
  "hasErr e = (length (MissingFields e) > 0)"

text \<open>
  The inner loop of \<^verbatim>\<open>ToGA\<close>: one \<^verbatim>\<open>append\<close> to \<^verbatim>\<open>errs.MissingFields\<close> for each
  entry of a slot of the error table.
\<close>

fun appendMissing ::
  "ConversionContext \<Rightarrow> 'v missingFieldOnCopy list \<Rightarrow> 'v ConversionError \<Rightarrow> 'v ConversionError"
where
  "appendMissing cc [] errs = errs"
| "appendMissing cc (mf # mfs) errs =
     appendMissing cc mfs
       (errs\<lparr>MissingFields := MissingFields errs @
          [\<lparr>Context = cc, Path = mfcPath mf, Value = mfcValue mf\<rparr>]\<rparr>)"

text \<open>The outer loop: over the conversion contexts whose destination is the version.\<close>

fun collectErrors ::
  "(ConversionContext \<Rightarrow> 'v conversionErrors) \<Rightarrow> ConversionContext list \<Rightarrow>
     'v ConversionError \<Rightarrow> 'v ConversionError"
where
  "collectErrors tab [] errs = errs"
| "collectErrors tab (cc # ccs) errs =
     collectErrors tab ccs (appendMissing cc (missingFields (tab cc)) errs)"

definition ToGA :: "('r, 'opt, 'ft, 'v) resource \<Rightarrow> 'r \<times> 'v ConversionError option" where
  "ToGA u =
     (let errs = collectErrors (errors u) [AlphaToGAConversion, BetaToGAConversion]
                   \<lparr>MissingFields = []\<rparr>
      in if hasErr errs then (ga u, Some errs) else (ga u, None))"

definition ToAlpha :: "('r, 'opt, 'ft, 'v) resource \<Rightarrow> 'r \<times> 'v ConversionError option" where
  "ToAlpha u =
     (let errs = collectErrors (errors u) [GAToAlphaConversion, BetaToAlphaConversion]
                   \<lparr>MissingFields = []\<rparr>
      in if hasErr errs then (alpha u, Some errs) else (alpha u, None))"

definition ToBeta :: "('r, 'opt, 'ft, 'v) resource \<Rightarrow> 'r \<times> 'v ConversionError option" where
  "ToBeta u =
     (let errs = collectErrors (errors u) [GAToBetaConversion, AlphaToBetaConversion]
                   \<lparr>MissingFields = []\<rparr>
      in if hasErr errs then (beta u, Some errs) else (beta u, None))"

section \<open>ImpliedVersion\<close>

definition ImpliedVersion :: "('r, 'opt, 'ft, 'v) resource \<Rightarrow> Version \<times> 'v error option" where
  "ImpliedVersion u =
     (let gaErr = snd (ToGA u);
          alphaErr = snd (ToAlpha u);
          betaErr = snd (ToBeta u)
      in if gaErr = None \<and> alphaErr = None \<and> betaErr = None then (VersionGA, None)
         else if gaErr \<noteq> None \<and> alphaErr = None \<and> betaErr \<noteq> None then (VersionAlpha, None)
         else if gaErr \<noteq> None \<and> alphaErr \<noteq> None \<and> betaErr = None then (VersionBeta, None)
         else (VersionGA, Some (IndeterminantVersion gaErr alphaErr betaErr)))"

section \<open>postAccess, Access*, Set*\<close>

text \<open>
  The collaborators of resource.go that are declared in other files of package api and
  reach the representations through \<^verbatim>\<open>reflect.Value\<close>; they are parameters here.
  \<^item> \<open>copierDo opts dest src\<close> is \<^verbatim>\<open>c := newCopier(opts...); c.do(dest, src)\<close>: the
    destination as the copier left it, \<^verbatim>\<open>c.missing\<close>, and the error of \<^verbatim>\<open>do\<close>.
    Modelled from the spec: the copier transfers values from the source into the
    destination and only reads the source.
  \<^item> \<open>checkPostAccess traits src\<close> is the validation after an access, \<open>None\<close> for nil.
    Modelled from the spec: the validation only reads the value.
  \<^item> \<open>fillNullAndForceSend traits v\<close> fills the metafields of \<open>v\<close> through its pointer:
    the value as it left it, and its error.
\<close>

record ('r, 'opt, 'ft, 'v) api =
  copierDo :: "'opt list \<Rightarrow> 'r \<Rightarrow> 'r \<Rightarrow> 'r \<times> 'v missingFieldOnCopy list \<times> 'v error option"
  checkPostAccess :: "'ft \<Rightarrow> 'r \<Rightarrow> 'v error option"
  fillNullAndForceSend :: "'ft \<Rightarrow> 'r \<Rightarrow> 'r \<times> 'v error option"

text \<open>Reading and writing through \<^verbatim>\<open>&u.ga\<close>, \<^verbatim>\<open>&u.alpha\<close>, \<^verbatim>\<open>&u.beta\<close>.\<close>

fun deref :: "Version \<Rightarrow> ('r, 'opt, 'ft, 'v) resource \<Rightarrow> 'r" where
  "deref VersionGA u = ga u"
| "deref VersionAlpha u = alpha u"
| "deref VersionBeta u = beta u"

fun assign ::
  "Version \<Rightarrow> 'r \<Rightarrow> ('r, 'opt, 'ft, 'v) resource \<Rightarrow> ('r, 'opt, 'ft, 'v) resource"
where
  "assign VersionGA y u = u\<lparr>ga := y\<rparr>"
| "assign VersionAlpha y u = u\<lparr>alpha := y\<rparr>"
| "assign VersionBeta y u = u\<lparr>beta := y\<rparr>"

text \<open>
  The local struct \<^verbatim>\<open>convert\<close> of \<^verbatim>\<open>postAccess\<close>: \<open>dest\<close> names the representation
  the pointer is to, \<open>copyHelper\<close> is the closure over \<^verbatim>\<open>u\<close> (it reads and writes the
  resource when it is called), \<open>errorsAt\<close> is the slot \<^verbatim>\<open>&u.errors[...]\<close>.
\<close>

record ('r, 'opt, 'ft, 'v) convert =
  dest :: Version
  copyHelper :: "('r, 'opt, 'ft, 'v) resource \<Rightarrow> ('r, 'opt, 'ft, 'v) resource \<times> 'v error option"
  errorsAt :: ConversionContext

text \<open>
  A call \<^verbatim>\<open>u.typeTrait.CopyHelperXtoY(&u.y, &u.x)\<close>: the hook \<open>h\<close> of the trait object
  is handed the destination \<open>d\<close> and the source \<open>s\<close>, and what it wrote through either
  pointer is in the resource afterwards.
\<close>

definition callHelper ::
  "(('r, 'ft, 'v) TypeTrait \<Rightarrow> 'r \<Rightarrow> 'r \<Rightarrow> 'r \<times> 'r \<times> 'v error option) \<Rightarrow>
     Version \<Rightarrow> Version \<Rightarrow>
     ('r, 'opt, 'ft, 'v) resource \<Rightarrow> ('r, 'opt, 'ft, 'v) resource \<times> 'v error option"
where
  "callHelper h d s u =
     (case h (typeTrait u) (deref d u) (deref s u) of
        (y, x, err) \<Rightarrow> (assign s x (assign d y u), err))"

fun conversions :: "Version \<Rightarrow> ('r, 'opt, 'ft, 'v) convert list" where
  "conversions VersionGA =
     [\<lparr>dest = VersionAlpha,
       copyHelper = callHelper CopyHelperGAtoAlpha VersionAlpha VersionGA,
       errorsAt = GAToAlphaConversion\<rparr>,
      \<lparr>dest = VersionBeta,
       copyHelper = callHelper CopyHelperGAtoBeta VersionBeta VersionGA,
       errorsAt = GAToBetaConversion\<rparr>]"
| "conversions VersionAlpha =
     [\<lparr>dest = VersionGA,
       copyHelper = callHelper CopyHelperAlphaToGA VersionGA VersionAlpha,
       errorsAt = AlphaToGAConversion\<rparr>,
      \<lparr>dest = VersionBeta,
       copyHelper = callHelper CopyHelperAlphaToBeta VersionBeta VersionAlpha,
       errorsAt = AlphaToBetaConversion\<rparr>]"
| "conversions VersionBeta =
     [\<lparr>dest = VersionGA,
       copyHelper = callHelper CopyHelperBetaToGA VersionGA VersionBeta,
       errorsAt = BetaToGAConversion\<rparr>,
      \<lparr>dest = VersionAlpha,
       copyHelper = callHelper CopyHelperBetaToAlpha VersionAlpha VersionBeta,
       errorsAt = BetaToAlphaConversion\<rparr>]"

definition postAccessSkipValidation :: int where
  "postAccessSkipValidation = push_bit 0 1"

text \<open>
  The loop \<^verbatim>\<open>for _, conv := range conversions\<close>: copy, then the hook, then the store of
  \<^verbatim>\<open>c.missing\<close> into the slot; the first error returns, with the resource as it is then.
\<close>

fun runConversions ::
  "('r, 'opt, 'ft, 'v) api \<Rightarrow> Version \<Rightarrow> ('r, 'opt, 'ft, 'v) convert list \<Rightarrow>
     ('r, 'opt, 'ft, 'v) resource \<Rightarrow> ('r, 'opt, 'ft, 'v) resource \<times> 'v error option"
where
  "runConversions env srcVer [] u = (u, None)"
| "runConversions env srcVer (conv # rest) u =
     (case copierDo env (copierOptions u) (deref (dest conv) u) (deref srcVer u) of
        (y, missing, cerr) \<Rightarrow>
          (let u1 = assign (dest conv) y u in
           case cerr of
             Some err \<Rightarrow> (u1, Some err)
           | None \<Rightarrow>
               (case copyHelper conv u1 of
                  (u2, Some err) \<Rightarrow> (u2, Some err)
                | (u2, None) \<Rightarrow>
                    runConversions env srcVer rest
                      (u2\<lparr>errors := (errors u2)(errorsAt conv := \<lparr>missingFields = missing\<rparr>)\<rparr>))))"

definition postAccess ::
  "('r, 'opt, 'ft, 'v) api \<Rightarrow> Version \<Rightarrow> int \<Rightarrow> ('r, 'opt, 'ft, 'v) resource \<Rightarrow>
     ('r, 'opt, 'ft, 'v) resource \<times> 'v error option"
where
  "postAccess env srcVer flags u =
     (case (if flags AND postAccessSkipValidation = 0
            then checkPostAccess env (FieldTraits (typeTrait u) srcVer) (deref srcVer u)
            else None) of
        Some err \<Rightarrow> (u, Some err)
      | None \<Rightarrow> runConversions env srcVer (conversions srcVer) u)"

text \<open>The callback \<^verbatim>\<open>f\<close> writes through the pointer: it is a function on the value.\<close>

definition Access ::
  "('r, 'opt, 'ft, 'v) api \<Rightarrow> ('r \<Rightarrow> 'r) \<Rightarrow> ('r, 'opt, 'ft, 'v) resource \<Rightarrow>
     ('r, 'opt, 'ft, 'v) resource \<times> 'v error option"
where
  "Access env f u = postAccess env VersionGA 0 (u\<lparr>ga := f (ga u)\<rparr>)"

definition AccessAlpha ::
  "('r, 'opt, 'ft, 'v) api \<Rightarrow> ('r \<Rightarrow> 'r) \<Rightarrow> ('r, 'opt, 'ft, 'v) resource \<Rightarrow>
     ('r, 'opt, 'ft, 'v) resource \<times> 'v error option"
where
  "AccessAlpha env f u = postAccess env VersionAlpha 0 (u\<lparr>alpha := f (alpha u)\<rparr>)"

definition AccessBeta ::
  "('r, 'opt, 'ft, 'v) api \<Rightarrow> ('r \<Rightarrow> 'r) \<Rightarrow> ('r, 'opt, 'ft, 'v) resource \<Rightarrow>
     ('r, 'opt, 'ft, 'v) resource \<times> 'v error option"
where
  "AccessBeta env f u = postAccess env VersionBeta 0 (u\<lparr>beta := f (beta u)\<rparr>)"

text \<open>
  \<^verbatim>\<open>Set\<close>, \<^verbatim>\<open>SetAlpha\<close>, \<^verbatim>\<open>SetBeta\<close>: the copier writes \<^verbatim>\<open>src\<close> into the
  representation (its \<^verbatim>\<open>missing\<close> list is not read), then \<^verbatim>\<open>postAccess\<close> runs with
  \<^verbatim>\<open>postAccessSkipValidation\<close>.
\<close>

definition Set ::
  "('r, 'opt, 'ft, 'v) api \<Rightarrow> 'r \<Rightarrow> ('r, 'opt, 'ft, 'v) resource \<Rightarrow>
     ('r, 'opt, 'ft, 'v) resource \<times> 'v error option"
where
  "Set env src u =
     (case copierDo env (copierOptions u) (ga u) src of
        (y, missing, Some err) \<Rightarrow> (u\<lparr>ga := y\<rparr>, Some err)
      | (y, missing, None) \<Rightarrow> postAccess env VersionGA postAccessSkipValidation (u\<lparr>ga := y\<rparr>))"

definition SetAlpha ::
  "('r, 'opt, 'ft, 'v) api \<Rightarrow> 'r \<Rightarrow> ('r, 'opt, 'ft, 'v) resource \<Rightarrow>
     ('r, 'opt, 'ft, 'v) resource \<times> 'v error option"
where
  "SetAlpha env src u =
     (case copierDo env (copierOptions u) (alpha u) src of
        (y, missing, Some err) \<Rightarrow> (u\<lparr>alpha := y\<rparr>, Some err)
      | (y, missing, None) \<Rightarrow>
          postAccess env VersionAlpha postAccessSkipValidation (u\<lparr>alpha := y\<rparr>))"

definition SetBeta ::
  "('r, 'opt, 'ft, 'v) api \<Rightarrow> 'r \<Rightarrow> ('r, 'opt, 'ft, 'v) resource \<Rightarrow>
     ('r, 'opt, 'ft, 'v) resource \<times> 'v error option"
where
  "SetBeta env src u =
     (case copierDo env (copierOptions u) (beta u) src of
        (y, missing, Some err) \<Rightarrow> (u\<lparr>beta := y\<rparr>, Some err)
      | (y, missing, None) \<Rightarrow>
          postAccess env VersionBeta postAccessSkipValidation (u\<lparr>beta := y\<rparr>))"

section \<open>Freeze\<close>

text \<open>
  \<^verbatim>\<open>frozenResource{x: u, ver: ver}\<close>: \<open>frozen_x\<close> is the resource the pointer \<^verbatim>\<open>x\<close> is
  to, as \<^verbatim>\<open>Freeze\<close> leaves it.
\<close>

record ('r, 'opt, 'ft, 'v) frozenResource =
  frozen_x :: "('r, 'opt, 'ft, 'v) resource"
  frozen_ver :: Version

text \<open>
  One guarded call \<^verbatim>\<open>if ver != V { fillNullAndForceSend(FieldTraits(V), &u.V) }\<close>.
\<close>

definition fillOther ::
  "('r, 'opt, 'ft, 'v) api \<Rightarrow> Version \<Rightarrow> Version \<Rightarrow> ('r, 'opt, 'ft, 'v) resource \<Rightarrow>
     ('r, 'opt, 'ft, 'v) resource \<times> 'v error option"
where
  "fillOther env ver v u =
     (if ver \<noteq> v
      then (let (y, err) = fillNullAndForceSend env (FieldTraits (typeTrait u) v) (deref v u)
            in (assign v y u, err))
      else (u, None))"

definition Freeze ::
  "('r, 'opt, 'ft, 'v) api \<Rightarrow> ('r, 'opt, 'ft, 'v) resource \<Rightarrow>
     ('r, 'opt, 'ft, 'v) resource \<times> ('v error + ('r, 'opt, 'ft, 'v) frozenResource)"
where
  "Freeze env u =
     (case ImpliedVersion u of
        (ver, Some err) \<Rightarrow> (u, Inl err)
      | (ver, None) \<Rightarrow>
          (case fillOther env ver VersionGA u of
             (u1, Some err) \<Rightarrow> (u1, Inl err)
           | (u1, None) \<Rightarrow>
               (case fillOther env ver VersionAlpha u1 of
                  (u2, Some err) \<Rightarrow> (u2, Inl err)
                | (u2, None) \<Rightarrow>
                    (case fillOther env ver VersionBeta u2 of
                       (u3, Some err) \<Rightarrow> (u3, Inl err)
                     | (u3, None) \<Rightarrow> (u3, Inr \<lparr>frozen_x = u3, frozen_ver = ver\<rparr>)))))"

section \<open>NewResource\<close>

text \<open>
  What \<^verbatim>\<open>setName\<close> asks of package reflect, on the struct types the representations
  are: a field has a name, a type and a value; a type is predeclared (\<^verbatim>\<open>string\<close>,
  \<^verbatim>\<open>int64\<close>, ...) or defined with an underlying type (\<^verbatim>\<open>type Tier string\<close>), and
  has the kind of its underlying type. Embedded structs are not modelled.
\<close>

datatype Kind = KBool | KInt | KString | KSlice | KPtr | KStruct

datatype GoType = Predeclared Kind | Defined string Kind

fun kindOf :: "GoType \<Rightarrow> Kind" where
  "kindOf (Predeclared k) = k"
| "kindOf (Defined n k) = k"

datatype GoVal = VBool bool | VInt int | VString string | VNil

record StructField =
  fieldName :: string
  fieldType :: GoType
  fieldValue :: GoVal

datatype reflectValue = StructVal "StructField list" | ScalarVal GoType GoVal

fun FieldByName :: "StructField list \<Rightarrow> string \<Rightarrow> StructField option" where
  "FieldByName [] n = None"
| "FieldByName (f # fs) n = (if fieldName f = n then Some f else FieldByName fs n)"

fun setFieldValue :: "StructField list \<Rightarrow> string \<Rightarrow> GoVal \<Rightarrow> StructField list" where
  "setFieldValue [] n y = []"
| "setFieldValue (f # fs) n y =
     (if fieldName f = n then f\<lparr>fieldValue := y\<rparr> # fs else f # setFieldValue fs n y)"

text \<open>
  The closure \<^verbatim>\<open>setName\<close>; \<open>Inl\<close> is a panic, with its message. The argument of
  \<^verbatim>\<open>f.Set\<close> is evaluated first (it dereferences \<^verbatim>\<open>resourceID\<close> and its
  \<^verbatim>\<open>Key\<close>); \<^verbatim>\<open>Set\<close> panics when a \<^verbatim>\<open>string\<close> is not assignable to the type
  of the field, which holds for every type but the predeclared \<^verbatim>\<open>string\<close>.
\<close>

definition setName :: "ResourceID option \<Rightarrow> reflectValue \<Rightarrow> string + reflectValue" where
  "setName rid v =
     (case v of
        ScalarVal t y \<Rightarrow> Inl ''reflect: FieldByName of non-struct type''
      | StructVal fs \<Rightarrow>
          (case FieldByName fs ''Name'' of
             None \<Rightarrow> Inr v
           | Some ft \<Rightarrow>
               if kindOf (fieldType ft) \<noteq> KString then Inr v
               else
                 (case FieldByName fs ''Name'' of
                    None \<Rightarrow> Inl ''type does not have .Name''
                  | Some f \<Rightarrow>
                      (case rid of
                         None \<Rightarrow> Inl ''invalid memory address or nil pointer dereference''
                       | Some r \<Rightarrow>
                           (case Key r of
                              None \<Rightarrow> Inl ''invalid memory address or nil pointer dereference''
                            | Some k \<Rightarrow>
                                if fieldType f = Predeclared KString
                                then Inr (StructVal (setFieldValue fs ''Name'' (VString (Name k))))
                                else Inl ''reflect.Set: value of type string is not assignable'')))))"

text \<open>
  Modelled from the spec: \<^verbatim>\<open>BaseTypeTrait\<close> is declared outside resource.go; it is the
  baseline trait that performs no custom bridging. Its field traits are a parameter.
\<close>

definition BaseTypeTrait :: "'ft \<Rightarrow> ('r, 'ft, 'v) TypeTrait" where
  "BaseTypeTrait traits =
     \<lparr>FieldTraits = (\<lambda>ver. traits),
      CopyHelperGAtoAlpha = (\<lambda>d s. (d, s, None)),
      CopyHelperGAtoBeta = (\<lambda>d s. (d, s, None)),
      CopyHelperAlphaToGA = (\<lambda>d s. (d, s, None)),
      CopyHelperAlphaToBeta = (\<lambda>d s. (d, s, None)),
      CopyHelperBetaToGA = (\<lambda>d s. (d, s, None)),
      CopyHelperBetaToAlpha = (\<lambda>d s. (d, s, None))\<rparr>"

text \<open>
  \<^verbatim>\<open>NewResource\<close>. The zero values of the type parameters \<^verbatim>\<open>GA\<close>, \<^verbatim>\<open>Alpha\<close>,
  \<^verbatim>\<open>Beta\<close> are arguments (\<open>ga0\<close>, \<open>alpha0\<close>, \<open>beta0\<close>); a nil \<^verbatim>\<open>typeTrait\<close> is
  \<open>None\<close>. The Go function has one result, the resource: \<open>Inr\<close>. \<open>Inl\<close> is a panic.
\<close>

definition NewResource ::
  "'ft \<Rightarrow> reflectValue \<Rightarrow> reflectValue \<Rightarrow> reflectValue \<Rightarrow> ResourceID option \<Rightarrow>
     (reflectValue, 'ft, 'v) TypeTrait option \<Rightarrow>
     string + (reflectValue, 'opt, 'ft, 'v) resource"
where
  "NewResource traits ga0 alpha0 beta0 rid tt =
     (let typeTrait' = (case tt of None \<Rightarrow> BaseTypeTrait traits | Some t \<Rightarrow> t);
          obj = \<lparr>copierOptions = [], typeTrait = typeTrait', ga = ga0, alpha = alpha0,
                 beta = beta0, resourceID = rid,
                 errors = (\<lambda>cc. \<lparr>missingFields = []\<rparr>)\<rparr>
      in case setName rid (ga obj) of
           Inl p \<Rightarrow> Inl p
         | Inr g \<Rightarrow>
             (case setName rid (alpha obj) of
                Inl p \<Rightarrow> Inl p
              | Inr a \<Rightarrow>
                  (case setName rid (beta obj) of
                     Inl p \<Rightarrow> Inl p
                   | Inr b \<Rightarrow> Inr (obj\<lparr>ga := g, alpha := a, beta := b\<rparr>))))"

section \<open>pkg/cloud/resgraph/algo/graphviz/graphviz.go\<close>

























section \<open>Notions the statements use\<close>

text \<open>
  What the \<^verbatim>\<open>To*\<close> methods are to return: the entries of a slot, each tagged with the
  context of the slot.
\<close>

definition tagged :: "ConversionContext \<Rightarrow> 'v missingFieldOnCopy list \<Rightarrow> 'v MissingField list" where
  "tagged cc mfs = map (\<lambda>mf. \<lparr>Context = cc, Path = mfcPath mf, Value = mfcValue mf\<rparr>) mfs"

definition inbound ::
  "('r, 'opt, 'ft, 'v) resource \<Rightarrow> ConversionContext \<Rightarrow> ConversionContext \<Rightarrow> 'v MissingField list"
where
  "inbound u c1 c2 =
     tagged c1 (missingFields (errors u c1)) @ tagged c2 (missingFields (errors u c2))"

text \<open>
  A representation that is a struct with a field \<^verbatim>\<open>Name\<close> whose kind is not
  \<^verbatim>\<open>reflect.String\<close>.
\<close>

definition nameNotOfStringKind :: "reflectValue \<Rightarrow> bool" where
  "nameNotOfStringKind v =
     (case v of
        StructVal fs \<Rightarrow>
          (case FieldByName fs ''Name'' of
             Some ft \<Rightarrow> kindOf (fieldType ft) \<noteq> KString
           | None \<Rightarrow> False)
      | ScalarVal t y \<Rightarrow> False)"









section \<open>Example inputs\<close>

text \<open>
  A resource whose representations are numbers, with a given trait object and error table;
  a slot with one lost field; and collaborators: a copier that copies the whole value and
  reports one field it could not place, a validation that refuses values above 10, a fill
  step that adds 100.
\<close>

definition lost :: "nat conversionErrors" where
  "lost = \<lparr>missingFields = [\<lparr>mfcPath = [''Feature''], mfcValue = 1\<rparr>]\<rparr>"

definition emptyTable :: "ConversionContext \<Rightarrow> nat conversionErrors" where
  "emptyTable = (\<lambda>cc. \<lparr>missingFields = []\<rparr>)"

definition exampleResource ::
  "(nat, unit, nat) TypeTrait \<Rightarrow> (ConversionContext \<Rightarrow> nat conversionErrors) \<Rightarrow>
     (nat, unit, unit, nat) resource"
where
  "exampleResource tt tab =
     \<lparr>copierOptions = [], typeTrait = tt, ga = 0, alpha = 0, beta = 0,
      resourceID = None, errors = tab\<rparr>"

definition exampleApi :: "(nat, unit, unit, nat) api" where
  "exampleApi =
     \<lparr>copierDo = (\<lambda>opts d s. (s, [\<lparr>mfcPath = [''Feature''], mfcValue = s\<rparr>], None)),
      checkPostAccess = (\<lambda>traits y. if y > 10 then Some (Err ''value out of range'') else None),
      fillNullAndForceSend = (\<lambda>traits y. (y + 100, None))\<rparr>"

text \<open>
  Trait objects whose hook from GA into Alpha, or from GA into Beta, fails; a fill step
  that fails.
\<close>

definition failingGAtoAlpha :: "(nat, unit, nat) TypeTrait" where
  "failingGAtoAlpha =
     (BaseTypeTrait ())\<lparr>CopyHelperGAtoAlpha := (\<lambda>d s. (d, s, Some (Err ''bridge failed'')))\<rparr>"

definition failingGAtoBeta :: "(nat, unit, nat) TypeTrait" where
  "failingGAtoBeta =
     (BaseTypeTrait ())\<lparr>CopyHelperGAtoBeta := (\<lambda>d s. (d, s, Some (Err ''bridge failed'')))\<rparr>"

definition failingFill :: "(nat, unit, unit, nat) api" where
  "failingFill =
     exampleApi\<lparr>fillNullAndForceSend := (\<lambda>traits y. (y, Some (Err ''fill failed'')))\<rparr>"

text \<open>
  A trait object whose hooks add to the destination, each its own amount; one whose hooks
  into the first destination of each version write 99 to the source they are handed and
  fail; and a copier that fails and leaves the destination as it was.
\<close>

definition bridging :: "(nat, unit, nat) TypeTrait" where
  "bridging =
     \<lparr>FieldTraits = (\<lambda>ver. ()),
      CopyHelperGAtoAlpha = (\<lambda>d s. (d + 1, s, None)),
      CopyHelperGAtoBeta = (\<lambda>d s. (d + 2, s, None)),
      CopyHelperAlphaToGA = (\<lambda>d s. (d + 3, s, None)),
      CopyHelperAlphaToBeta = (\<lambda>d s. (d + 4, s, None)),
      CopyHelperBetaToGA = (\<lambda>d s. (d + 5, s, None)),
      CopyHelperBetaToAlpha = (\<lambda>d s. (d + 6, s, None))\<rparr>"


definition failingCopy :: "(nat, unit, unit, nat) api" where
  "failingCopy =
     exampleApi\<lparr>copierDo := (\<lambda>opts d s. (d, [], Some (Err ''copy failed'')))\<rparr>"

text \<open>
  Two struct values: one whose \<^verbatim>\<open>Name\<close> is a number, one whose \<^verbatim>\<open>Name\<close> is a
  \<^verbatim>\<open>string\<close>; and the identity with the name foo.
\<close>

definition numberedStruct :: reflectValue where
  "numberedStruct =
     StructVal [\<lparr>fieldName = ''Name'', fieldType = Predeclared KInt, fieldValue = VInt 0\<rparr>,
                \<lparr>fieldName = ''Description'', fieldType = Predeclared KString,
                 fieldValue = VString []\<rparr>]"

definition namedStruct :: "string \<Rightarrow> reflectValue" where
  "namedStruct n =
     StructVal [\<lparr>fieldName = ''Name'', fieldType = Predeclared KString, fieldValue = VString n\<rparr>,
                \<lparr>fieldName = ''Feature'', fieldType = Predeclared KBool,
                 fieldValue = VBool False\<rparr>]"

definition fooID :: "ResourceID option" where
  "fooID = Some \<lparr>Key = Some \<lparr>Name = ''foo''\<rparr>\<rparr>"



section \<open>Properties of the To* methods and of ImpliedVersion\<close>

lemma appendMissing_eq:
  "appendMissing cc mfs errs = errs\<lparr>MissingFields := MissingFields errs @ tagged cc mfs\<rparr>"
  by (induction mfs arbitrary: errs) (simp_all add: tagged_def)

lemma collectErrors_two:
  "collectErrors tab [c1, c2] \<lparr>MissingFields = []\<rparr> =
     \<lparr>MissingFields = tagged c1 (missingFields (tab c1)) @ tagged c2 (missingFields (tab c2))\<rparr>"
  by (simp add: appendMissing_eq)

lemma ToGA_eq:
  "ToGA u =
     (ga u, if inbound u AlphaToGAConversion BetaToGAConversion = [] then None
            else Some \<lparr>MissingFields = inbound u AlphaToGAConversion BetaToGAConversion\<rparr>)"
  by (simp add: ToGA_def collectErrors_two hasErr_def inbound_def Let_def del: collectErrors.simps)

lemma ToAlpha_eq:
  "ToAlpha u =
     (alpha u, if inbound u GAToAlphaConversion BetaToAlphaConversion = [] then None
               else Some \<lparr>MissingFields = inbound u GAToAlphaConversion BetaToAlphaConversion\<rparr>)"
  by (simp add: ToAlpha_def collectErrors_two hasErr_def inbound_def Let_def del: collectErrors.simps)

lemma ToBeta_eq:
  "ToBeta u =
     (beta u, if inbound u GAToBetaConversion AlphaToBetaConversion = [] then None
              else Some \<lparr>MissingFields = inbound u GAToBetaConversion AlphaToBetaConversion\<rparr>)"
  by (simp add: ToBeta_def collectErrors_two hasErr_def inbound_def Let_def del: collectErrors.simps)

text \<open>
  Claim C2. For every resource state, each of ToGA, ToAlpha and ToBeta returns the current
  value of its version; the returned error is nil exactly when the two slots of the error
  table whose destination is that version hold no entry, and otherwise it is a
  ConversionError whose MissingFields are the entries of the first inbound slot followed
  by those of the second, each tagged with the context of its slot.
\<close>

theorem To_version_aggregates_inbound:
  "fst (ToGA u) = ga u \<and> fst (ToAlpha u) = alpha u \<and> fst (ToBeta u) = beta u
   \<and> (snd (ToGA u) = None) = (inbound u AlphaToGAConversion BetaToGAConversion = [])
   \<and> (snd (ToAlpha u) = None) = (inbound u GAToAlphaConversion BetaToAlphaConversion = [])
   \<and> (snd (ToBeta u) = None) = (inbound u GAToBetaConversion AlphaToBetaConversion = [])
   \<and> (case snd (ToGA u) of None \<Rightarrow> []  | Some e \<Rightarrow> MissingFields e)
       = tagged AlphaToGAConversion (missingFields (errors u AlphaToGAConversion))
         @ tagged BetaToGAConversion (missingFields (errors u BetaToGAConversion))
   \<and> (case snd (ToAlpha u) of None \<Rightarrow> [] | Some e \<Rightarrow> MissingFields e)
       = tagged GAToAlphaConversion (missingFields (errors u GAToAlphaConversion))
         @ tagged BetaToAlphaConversion (missingFields (errors u BetaToAlphaConversion))
   \<and> (case snd (ToBeta u) of None \<Rightarrow> [] | Some e \<Rightarrow> MissingFields e)
       = tagged GAToBetaConversion (missingFields (errors u GAToBetaConversion))
         @ tagged AlphaToBetaConversion (missingFields (errors u AlphaToBetaConversion))"
  by (simp add: ToGA_eq ToAlpha_eq ToBeta_eq inbound_def)

lemmas ex =
  exampleResource_def emptyTable_def lost_def ToGA_eq ToAlpha_eq ToBeta_eq inbound_def tagged_def

text \<open>
  Claim C1. ImpliedVersion returns GA with no error when ToGA, ToAlpha and ToBeta are all
  free of errors; Alpha when GA has an error, Alpha has none and Beta has one; Beta when GA
  and Alpha have an error and Beta has none; and in every other combination (so also when
  GA alone is free of errors) an error that carries the three error states.
\<close>

theorem ImpliedVersion_decision_table:
  "(snd (ToGA u) = None \<and> snd (ToAlpha u) = None \<and> snd (ToBeta u) = None
      \<longrightarrow> ImpliedVersion u = (VersionGA, None))
   \<and> (snd (ToGA u) \<noteq> None \<and> snd (ToAlpha u) = None \<and> snd (ToBeta u) \<noteq> None
      \<longrightarrow> ImpliedVersion u = (VersionAlpha, None))
   \<and> (snd (ToGA u) \<noteq> None \<and> snd (ToAlpha u) \<noteq> None \<and> snd (ToBeta u) = None
      \<longrightarrow> ImpliedVersion u = (VersionBeta, None))
   \<and> (\<not> (snd (ToGA u) = None \<and> snd (ToAlpha u) = None \<and> snd (ToBeta u) = None)
      \<and> \<not> (snd (ToGA u) \<noteq> None \<and> snd (ToAlpha u) = None \<and> snd (ToBeta u) \<noteq> None)
      \<and> \<not> (snd (ToGA u) \<noteq> None \<and> snd (ToAlpha u) \<noteq> None \<and> snd (ToBeta u) = None)
      \<longrightarrow> snd (ImpliedVersion u) =
            Some (IndeterminantVersion (snd (ToGA u)) (snd (ToAlpha u)) (snd (ToBeta u))))
   \<and> (snd (ToGA u) = None \<and> snd (ToAlpha u) \<noteq> None \<and> snd (ToBeta u) \<noteq> None
      \<longrightarrow> snd (ImpliedVersion u) =
            Some (IndeterminantVersion (snd (ToGA u)) (snd (ToAlpha u)) (snd (ToBeta u))))"
  unfolding ImpliedVersion_def Let_def by auto

theorem ImpliedVersion_decision_table_witness:
  "ImpliedVersion (exampleResource (BaseTypeTrait ()) emptyTable) = (VersionGA, None)
   \<and> ImpliedVersion (exampleResource (BaseTypeTrait ())
        (emptyTable(AlphaToGAConversion := lost, AlphaToBetaConversion := lost)))
       = (VersionAlpha, None)
   \<and> ImpliedVersion (exampleResource (BaseTypeTrait ())
        (emptyTable(BetaToGAConversion := lost, BetaToAlphaConversion := lost)))
       = (VersionBeta, None)
   \<and> snd (ImpliedVersion (exampleResource (BaseTypeTrait ())
        (emptyTable(GAToAlphaConversion := lost, GAToBetaConversion := lost))))
       = Some (IndeterminantVersion None
           (Some \<lparr>MissingFields = [\<lparr>Context = GAToAlphaConversion, Path = [''Feature''], Value = 1\<rparr>]\<rparr>)
           (Some \<lparr>MissingFields = [\<lparr>Context = GAToBetaConversion, Path = [''Feature''], Value = 1\<rparr>]\<rparr>))"
proof -
  let ?u0 = "exampleResource (BaseTypeTrait ()) emptyTable"
  let ?uA = "exampleResource (BaseTypeTrait ())
        (emptyTable(AlphaToGAConversion := lost, AlphaToBetaConversion := lost))"
  let ?uB = "exampleResource (BaseTypeTrait ())
        (emptyTable(BetaToGAConversion := lost, BetaToAlphaConversion := lost))"
  let ?uS = "exampleResource (BaseTypeTrait ())
        (emptyTable(GAToAlphaConversion := lost, GAToBetaConversion := lost))"
  have h0: "snd (ToGA ?u0) = None \<and> snd (ToAlpha ?u0) = None \<and> snd (ToBeta ?u0) = None"
    by (simp add: ex)
  have hA: "snd (ToGA ?uA) \<noteq> None \<and> snd (ToAlpha ?uA) = None \<and> snd (ToBeta ?uA) \<noteq> None"
    by (simp add: ex)
  have hB: "snd (ToGA ?uB) \<noteq> None \<and> snd (ToAlpha ?uB) \<noteq> None \<and> snd (ToBeta ?uB) = None"
    by (simp add: ex)
  have hS: "snd (ToGA ?uS) = None
      \<and> snd (ToAlpha ?uS) = Some \<lparr>MissingFields = [\<lparr>Context = GAToAlphaConversion, Path = [''Feature''], Value = 1\<rparr>]\<rparr>
      \<and> snd (ToBeta ?uS) = Some \<lparr>MissingFields = [\<lparr>Context = GAToBetaConversion, Path = [''Feature''], Value = 1\<rparr>]\<rparr>"
    by (simp add: ex)
  have r0: "ImpliedVersion ?u0 = (VersionGA, None)"
    using ImpliedVersion_decision_table[of ?u0] h0 by blast
  have rA: "ImpliedVersion ?uA = (VersionAlpha, None)"
    using ImpliedVersion_decision_table[of ?uA] hA by blast
  have rB: "ImpliedVersion ?uB = (VersionBeta, None)"
    using ImpliedVersion_decision_table[of ?uB] hB by blast
  have rS: "snd (ImpliedVersion ?uS) =
      Some (IndeterminantVersion (snd (ToGA ?uS)) (snd (ToAlpha ?uS)) (snd (ToBeta ?uS)))"
    using ImpliedVersion_decision_table[of ?uS] hS by simp
  show ?thesis using r0 rA rB rS hS by simp
qed

text \<open>
  Claim C9. Whenever ImpliedVersion returns an error, the version it returns beside the
  error is GA, not a value of its own.
\<close>

theorem ImpliedVersion_error_returns_GA:
  "snd (ImpliedVersion u) \<noteq> None \<Longrightarrow> fst (ImpliedVersion u) = VersionGA"
  unfolding ImpliedVersion_def Let_def by (auto split: if_splits)

theorem ImpliedVersion_error_returns_GA_witness:
  "snd (ImpliedVersion (exampleResource (BaseTypeTrait ())
          (emptyTable(AlphaToGAConversion := lost, GAToAlphaConversion := lost,
             AlphaToBetaConversion := lost)))) \<noteq> None
   \<and> fst (ImpliedVersion (exampleResource (BaseTypeTrait ())
          (emptyTable(AlphaToGAConversion := lost, GAToAlphaConversion := lost,
             AlphaToBetaConversion := lost)))) = VersionGA"
proof -
  let ?u = "exampleResource (BaseTypeTrait ())
          (emptyTable(AlphaToGAConversion := lost, GAToAlphaConversion := lost,
             AlphaToBetaConversion := lost))"
  have h: "snd (ImpliedVersion ?u) \<noteq> None"
    by (simp add: ImpliedVersion_def ex)
  from ImpliedVersion_error_returns_GA[OF h] h show ?thesis by simp
qed

section \<open>Access\<close>

text \<open>
  Claim C3. When the validation after an access fails, Access, AccessAlpha and AccessBeta
  return its error at once: the resource is as before the call but for the source the
  callback wrote, so the two destinations and the six slots of the error table are as they
  were.
\<close>

theorem Access_validation_failure_writes_nothing:
  "(checkPostAccess env (FieldTraits (typeTrait u) VersionGA) (f (ga u)) = Some err
      \<longrightarrow> Access env f u = (u\<lparr>ga := f (ga u)\<rparr>, Some err))
   \<and> (checkPostAccess env (FieldTraits (typeTrait u) VersionAlpha) (f (alpha u)) = Some err
      \<longrightarrow> AccessAlpha env f u = (u\<lparr>alpha := f (alpha u)\<rparr>, Some err))
   \<and> (checkPostAccess env (FieldTraits (typeTrait u) VersionBeta) (f (beta u)) = Some err
      \<longrightarrow> AccessBeta env f u = (u\<lparr>beta := f (beta u)\<rparr>, Some err))"
  by (simp add: Access_def AccessAlpha_def AccessBeta_def postAccess_def postAccessSkipValidation_def)

theorem Access_validation_failure_witness:
  "checkPostAccess exampleApi
      (FieldTraits (typeTrait (exampleResource (BaseTypeTrait ()) emptyTable)) VersionGA)
      ((\<lambda>y. 11) (ga (exampleResource (BaseTypeTrait ()) emptyTable)))
     = Some (Err ''value out of range'')
   \<and> Access exampleApi (\<lambda>y. 11) (exampleResource (BaseTypeTrait ()) emptyTable)
     = ((exampleResource (BaseTypeTrait ()) emptyTable)\<lparr>ga := 11\<rparr>, Some (Err ''value out of range''))
   \<and> AccessAlpha exampleApi (\<lambda>y. 11) (exampleResource (BaseTypeTrait ()) emptyTable)
     = ((exampleResource (BaseTypeTrait ()) emptyTable)\<lparr>alpha := 11\<rparr>, Some (Err ''value out of range''))
   \<and> AccessBeta exampleApi (\<lambda>y. 11) (exampleResource (BaseTypeTrait ()) emptyTable)
     = ((exampleResource (BaseTypeTrait ()) emptyTable)\<lparr>beta := 11\<rparr>, Some (Err ''value out of range''))"
proof -
  let ?u = "exampleResource (BaseTypeTrait ()) emptyTable"
  have h: "\<And>ver y. checkPostAccess exampleApi (FieldTraits (typeTrait ?u) ver) ((\<lambda>y. 11) y)
             = Some (Err ''value out of range'')"
    by (simp add: exampleApi_def)
  show ?thesis
    using Access_validation_failure_writes_nothing
            [of exampleApi ?u "\<lambda>y. 11" "Err ''value out of range''"] h
    by simp
qed

section \<open>Propagation: the conversions of one call\<close>

lemma postAccess_skip:
  "postAccess env v postAccessSkipValidation u = runConversions env v (conversions v) u"
  by (simp add: postAccess_def postAccessSkipValidation_def)

lemma runConversions_ignores_validation:
  "runConversions (env\<lparr>checkPostAccess := chk\<rparr>) v cs u = runConversions env v cs u"
  by (induction cs arbitrary: u) (simp_all add: Let_def split: prod.splits option.splits)

lemma postAccess_accepting:
  "postAccess (env\<lparr>checkPostAccess := (\<lambda>traits y. None)\<rparr>) v 0 u
     = runConversions env v (conversions v) u"
  by (simp add: postAccess_def runConversions_ignores_validation del: runConversions.simps)

lemma run_GA:
  "runConversions env VersionGA (conversions VersionGA) u =
     (case copierDo env (copierOptions u) (alpha u) (ga u) of
        (y1, m1, Some e) \<Rightarrow> (u\<lparr>alpha := y1\<rparr>, Some e)
      | (y1, m1, None) \<Rightarrow>
          (case CopyHelperGAtoAlpha (typeTrait u) y1 (ga u) of
             (z1, s1, Some e) \<Rightarrow> (u\<lparr>ga := s1, alpha := z1\<rparr>, Some e)
           | (z1, s1, None) \<Rightarrow>
               (case copierDo env (copierOptions u) (beta u) s1 of
                  (y2, m2, Some e) \<Rightarrow>
                    (u\<lparr>ga := s1, alpha := z1, beta := y2,
                       errors := (errors u)(GAToAlphaConversion := \<lparr>missingFields = m1\<rparr>)\<rparr>,
                     Some e)
                | (y2, m2, None) \<Rightarrow>
                    (case CopyHelperGAtoBeta (typeTrait u) y2 s1 of
                       (z2, s2, Some e) \<Rightarrow>
                         (u\<lparr>ga := s2, alpha := z1, beta := z2,
                            errors := (errors u)(GAToAlphaConversion := \<lparr>missingFields = m1\<rparr>)\<rparr>,
                          Some e)
                     | (z2, s2, None) \<Rightarrow>
                         (u\<lparr>ga := s2, alpha := z1, beta := z2,
                            errors := (errors u)
                              (GAToAlphaConversion := \<lparr>missingFields = m1\<rparr>,
                               GAToBetaConversion := \<lparr>missingFields = m2\<rparr>)\<rparr>,
                          None)))))"
  by (simp add: callHelper_def Let_def split: prod.splits option.splits)

lemma run_Alpha:
  "runConversions env VersionAlpha (conversions VersionAlpha) u =
     (case copierDo env (copierOptions u) (ga u) (alpha u) of
        (y1, m1, Some e) \<Rightarrow> (u\<lparr>ga := y1\<rparr>, Some e)
      | (y1, m1, None) \<Rightarrow>
          (case CopyHelperAlphaToGA (typeTrait u) y1 (alpha u) of
             (z1, s1, Some e) \<Rightarrow> (u\<lparr>ga := z1, alpha := s1\<rparr>, Some e)
           | (z1, s1, None) \<Rightarrow>
               (case copierDo env (copierOptions u) (beta u) s1 of
                  (y2, m2, Some e) \<Rightarrow>
                    (u\<lparr>ga := z1, alpha := s1, beta := y2,
                       errors := (errors u)(AlphaToGAConversion := \<lparr>missingFields = m1\<rparr>)\<rparr>,
                     Some e)
                | (y2, m2, None) \<Rightarrow>
                    (case CopyHelperAlphaToBeta (typeTrait u) y2 s1 of
                       (z2, s2, Some e) \<Rightarrow>
                         (u\<lparr>ga := z1, alpha := s2, beta := z2,
                            errors := (errors u)(AlphaToGAConversion := \<lparr>missingFields = m1\<rparr>)\<rparr>,
                          Some e)
                     | (z2, s2, None) \<Rightarrow>
                         (u\<lparr>ga := z1, alpha := s2, beta := z2,
                            errors := (errors u)
                              (AlphaToGAConversion := \<lparr>missingFields = m1\<rparr>,
                               AlphaToBetaConversion := \<lparr>missingFields = m2\<rparr>)\<rparr>,
                          None)))))"
  by (simp add: callHelper_def Let_def split: prod.splits option.splits)

lemma run_Beta:
  "runConversions env VersionBeta (conversions VersionBeta) u =
     (case copierDo env (copierOptions u) (ga u) (beta u) of
        (y1, m1, Some e) \<Rightarrow> (u\<lparr>ga := y1\<rparr>, Some e)
      | (y1, m1, None) \<Rightarrow>
          (case CopyHelperBetaToGA (typeTrait u) y1 (beta u) of
             (z1, s1, Some e) \<Rightarrow> (u\<lparr>ga := z1, beta := s1\<rparr>, Some e)
           | (z1, s1, None) \<Rightarrow>
               (case copierDo env (copierOptions u) (alpha u) s1 of
                  (y2, m2, Some e) \<Rightarrow>
                    (u\<lparr>ga := z1, alpha := y2, beta := s1,
                       errors := (errors u)(BetaToGAConversion := \<lparr>missingFields = m1\<rparr>)\<rparr>,
                     Some e)
                | (y2, m2, None) \<Rightarrow>
                    (case CopyHelperBetaToAlpha (typeTrait u) y2 s1 of
                       (z2, s2, Some e) \<Rightarrow>
                         (u\<lparr>ga := z1, alpha := z2, beta := s2,
                            errors := (errors u)(BetaToGAConversion := \<lparr>missingFields = m1\<rparr>)\<rparr>,
                          Some e)
                     | (z2, s2, None) \<Rightarrow>
                         (u\<lparr>ga := z1, alpha := z2, beta := s2,
                            errors := (errors u)
                              (BetaToGAConversion := \<lparr>missingFields = m1\<rparr>,
                               BetaToAlphaConversion := \<lparr>missingFields = m2\<rparr>)\<rparr>,
                          None)))))"
  by (simp add: callHelper_def Let_def split: prod.splits option.splits)






lemmas run_ex =
  Access_def postAccess_def postAccessSkipValidation_def callHelper_def exampleApi_def
  exampleResource_def emptyTable_def BaseTypeTrait_def





section \<open>Propagation: a hook that fails\<close>

lemma conversions_two:
  "conversions srcVer = [c1, c2] \<Longrightarrow>
     dest c1 \<noteq> srcVer \<and> dest c2 \<noteq> srcVer \<and> dest c1 \<noteq> dest c2 \<and> errorsAt c1 \<noteq> errorsAt c2
     \<and> (\<exists>h1. copyHelper c1 = callHelper h1 (dest c1) srcVer)
     \<and> (\<exists>h2. copyHelper c2 = callHelper h2 (dest c2) srcVer)"
  by (cases srcVer) auto

lemma assign_assign: "assign d z (assign d y u) = assign d z u"
  by (cases d) simp_all

lemma deref_assign: "deref d (assign d y u) = y"
  by (cases d) simp_all

lemma deref_assign_other: "d \<noteq> v \<Longrightarrow> deref v (assign d y u) = deref v u"
  by (cases d; cases v) simp_all

lemma assign_fields:
  "errors (assign d y u) = errors u" "copierOptions (assign d y u) = copierOptions u"
  "typeTrait (assign d y u) = typeTrait u"
  by (cases d; simp)+

lemma deref_errors_update: "deref v (u\<lparr>errors := t\<rparr>) = deref v u"
  by (cases v) simp_all

lemma assign_commute:
  "d \<noteq> s \<Longrightarrow> assign s x (assign d y u) = assign d y (assign s x u)"
  by (cases d; cases s) simp_all

lemma callHelper_result:
  "callHelper h d s w = (w', e) \<Longrightarrow>
     w' = assign s (deref s w') (assign d (deref d w') w)"
  unfolding callHelper_def
  by (cases d; cases s) (auto split: prod.splits)

lemma runConversions_two:
  "runConversions env srcVer [c1, c2] u =
     (case copierDo env (copierOptions u) (deref (dest c1) u) (deref srcVer u) of
        (y1, m1, Some e) \<Rightarrow> (assign (dest c1) y1 u, Some e)
      | (y1, m1, None) \<Rightarrow>
          (case copyHelper c1 (assign (dest c1) y1 u) of
             (u1, Some e) \<Rightarrow> (u1, Some e)
           | (u1, None) \<Rightarrow>
               (let u1' = u1\<lparr>errors := (errors u1)(errorsAt c1 := \<lparr>missingFields = m1\<rparr>)\<rparr> in
                case copierDo env (copierOptions u1') (deref (dest c2) u1') (deref srcVer u1') of
                  (y2, m2, Some e) \<Rightarrow> (assign (dest c2) y2 u1', Some e)
                | (y2, m2, None) \<Rightarrow>
                    (case copyHelper c2 (assign (dest c2) y2 u1') of
                       (u2, Some e) \<Rightarrow> (u2, Some e)
                     | (u2, None) \<Rightarrow>
                         (u2\<lparr>errors := (errors u2)(errorsAt c2 := \<lparr>missingFields = m2\<rparr>)\<rparr>, None)))))"
  by (simp add: Let_def split: prod.splits option.splits)

text \<open>
  Claim C4, as the code has it. When the hook of a destination returns an error, the call
  returns that error and no later destination is touched. If the hook of the first
  destination fails, the resource is as before the call but for the value of that
  destination (what the copier and the hook left there) and for what the hook wrote to the
  source: the list the copier collected for that destination is not stored, and every slot
  of the error table is as it was. If the hook of the second destination fails, the first
  destination keeps its value and its stored list, and the second keeps its value only:
  its slot is as it was.
\<close>

theorem postAccess_hook_failure_is_partial:
  "conversions srcVer = [c1, c2]
   \<and> (flags AND postAccessSkipValidation \<noteq> 0
      \<or> checkPostAccess env (FieldTraits (typeTrait u) srcVer) (deref srcVer u) = None)
   \<and> copierDo env (copierOptions u) (deref (dest c1) u) (deref srcVer u) = (y1, m1, None)
   \<longrightarrow>
     (copyHelper c1 (assign (dest c1) y1 u) = (u1, Some err)
        \<longrightarrow> postAccess env srcVer flags u = (u1, Some err)
            \<and> u1 = assign srcVer (deref srcVer u1) (assign (dest c1) (deref (dest c1) u1) u)
            \<and> errors u1 = errors u
            \<and> deref (dest c2) u1 = deref (dest c2) u)
     \<and> (copyHelper c1 (assign (dest c1) y1 u) = (u1, None)
        \<and> copierDo env (copierOptions u) (deref (dest c2) u) (deref srcVer u1) = (y2, m2, None)
        \<and> copyHelper c2
             (assign (dest c2) y2 (u1\<lparr>errors := (errors u)(errorsAt c1 := \<lparr>missingFields = m1\<rparr>)\<rparr>))
            = (u2, Some err)
        \<longrightarrow> postAccess env srcVer flags u = (u2, Some err)
            \<and> u2 = assign srcVer (deref srcVer u2)
                     (assign (dest c2) (deref (dest c2) u2)
                        (u1\<lparr>errors := (errors u)(errorsAt c1 := \<lparr>missingFields = m1\<rparr>)\<rparr>))
            \<and> deref (dest c1) u2 = deref (dest c1) u1
            \<and> errors u2 = (errors u)(errorsAt c1 := \<lparr>missingFields = m1\<rparr>))"
proof (intro impI, elim conjE)
  assume cs: "conversions srcVer = [c1, c2]"
    and valid: "flags AND postAccessSkipValidation \<noteq> 0
      \<or> checkPostAccess env (FieldTraits (typeTrait u) srcVer) (deref srcVer u) = None"
    and copy1: "copierDo env (copierOptions u) (deref (dest c1) u) (deref srcVer u) = (y1, m1, None)"
  from conversions_two[OF cs] obtain h1 h2 where
    d1: "dest c1 \<noteq> srcVer" and d2: "dest c2 \<noteq> srcVer" and d12: "dest c1 \<noteq> dest c2"
    and h1: "copyHelper c1 = callHelper h1 (dest c1) srcVer"
    and h2: "copyHelper c2 = callHelper h2 (dest c2) srcVer"
    by blast
  have pa: "postAccess env srcVer flags u = runConversions env srcVer [c1, c2] u"
    using valid cs by (auto simp: postAccess_def)
  let ?ua = "assign (dest c1) y1 u"
  let ?t = "(errors u)(errorsAt c1 := \<lparr>missingFields = m1\<rparr>)"
  have shape1:
    "w = assign srcVer (deref srcVer w) (assign (dest c1) (deref (dest c1) w) u)
       \<and> errors w = errors u \<and> copierOptions w = copierOptions u
       \<and> deref (dest c2) w = deref (dest c2) u"
    if "copyHelper c1 ?ua = (w, e)" for w e
  proof -
    from callHelper_result[OF that[unfolded h1]]
    have w: "w = assign srcVer (deref srcVer w) (assign (dest c1) (deref (dest c1) w) u)"
      by (simp add: assign_assign)
    have "errors w = errors u" "copierOptions w = copierOptions u"
      by (subst w, simp add: assign_fields)+
    moreover have "deref (dest c2) w = deref (dest c2) u"
      by (subst w) (simp add: deref_assign_other d2[symmetric] d12)
    ultimately show ?thesis using w by simp
  qed
  have first: "postAccess env srcVer flags u = (u1, Some err)
            \<and> u1 = assign srcVer (deref srcVer u1) (assign (dest c1) (deref (dest c1) u1) u)
            \<and> errors u1 = errors u
            \<and> deref (dest c2) u1 = deref (dest c2) u"
    if a: "copyHelper c1 ?ua = (u1, Some err)"
  proof -
    have "postAccess env srcVer flags u = (u1, Some err)"
      by (simp add: pa runConversions_two copy1 a del: runConversions.simps)
    then show ?thesis using shape1[OF a] by simp
  qed
  have second: "postAccess env srcVer flags u = (u2, Some err)
            \<and> u2 = assign srcVer (deref srcVer u2)
                     (assign (dest c2) (deref (dest c2) u2) (u1\<lparr>errors := ?t\<rparr>))
            \<and> deref (dest c1) u2 = deref (dest c1) u1
            \<and> errors u2 = ?t"
    if b1: "copyHelper c1 ?ua = (u1, None)"
      and b2: "copierDo env (copierOptions u) (deref (dest c2) u) (deref srcVer u1) = (y2, m2, None)"
      and b3: "copyHelper c2 (assign (dest c2) y2 (u1\<lparr>errors := ?t\<rparr>)) = (u2, Some err)"
  proof -
    let ?u1' = "u1\<lparr>errors := ?t\<rparr>"
    note s1 = shape1[OF b1]
    have s1': "errors u1 = errors u" "copierOptions u1 = copierOptions u"
      "deref (dest c2) u1 = deref (dest c2) u"
      using s1 by simp_all
    have pa2: "postAccess env srcVer flags u = (u2, Some err)"
      by (simp add: pa runConversions_two copy1 b1 Let_def deref_errors_update s1' b2 b3
            del: runConversions.simps)
    from callHelper_result[OF b3[unfolded h2]]
    have w2: "u2 = assign srcVer (deref srcVer u2) (assign (dest c2) (deref (dest c2) u2) ?u1')"
      by (simp add: assign_assign)
    have k1: "deref (dest c1) u2 = deref (dest c1) u1"
      by (subst w2) (simp add: deref_assign_other deref_errors_update d1[symmetric] d12[symmetric])
    have k2: "errors u2 = ?t"
      by (subst w2) (simp add: assign_fields)
    show ?thesis using pa2 w2 k1 k2 by simp
  qed
  show "(copyHelper c1 ?ua = (u1, Some err)
        \<longrightarrow> postAccess env srcVer flags u = (u1, Some err)
            \<and> u1 = assign srcVer (deref srcVer u1) (assign (dest c1) (deref (dest c1) u1) u)
            \<and> errors u1 = errors u
            \<and> deref (dest c2) u1 = deref (dest c2) u)
     \<and> (copyHelper c1 ?ua = (u1, None)
        \<and> copierDo env (copierOptions u) (deref (dest c2) u) (deref srcVer u1) = (y2, m2, None)
        \<and> copyHelper c2 (assign (dest c2) y2 (u1\<lparr>errors := ?t\<rparr>)) = (u2, Some err)
        \<longrightarrow> postAccess env srcVer flags u = (u2, Some err)
            \<and> u2 = assign srcVer (deref srcVer u2)
                     (assign (dest c2) (deref (dest c2) u2) (u1\<lparr>errors := ?t\<rparr>))
            \<and> deref (dest c1) u2 = deref (dest c1) u1
            \<and> errors u2 = ?t)"
    using first second by blast
qed

theorem postAccess_hook_failure_is_partial_witness:
  "postAccess exampleApi VersionGA 0 ((exampleResource failingGAtoAlpha emptyTable)\<lparr>ga := 7\<rparr>)
     = ((exampleResource failingGAtoAlpha emptyTable)\<lparr>ga := 7, alpha := 7\<rparr>,
        Some (Err ''bridge failed''))
   \<and> postAccess exampleApi VersionGA 0 ((exampleResource failingGAtoBeta emptyTable)\<lparr>ga := 7\<rparr>)
     = ((exampleResource failingGAtoBeta emptyTable)
          \<lparr>ga := 7, alpha := 7, beta := 7,
           errors := emptyTable(GAToAlphaConversion :=
                       \<lparr>missingFields = [\<lparr>mfcPath = [''Feature''], mfcValue = 7\<rparr>]\<rparr>)\<rparr>,
        Some (Err ''bridge failed''))"
proof -
  let ?c1 = "\<lparr>dest = VersionAlpha,
               copyHelper = callHelper CopyHelperGAtoAlpha VersionAlpha VersionGA,
               errorsAt = GAToAlphaConversion\<rparr> :: (nat, unit, unit, nat) convert"
  let ?c2 = "\<lparr>dest = VersionBeta,
               copyHelper = callHelper CopyHelperGAtoBeta VersionBeta VersionGA,
               errorsAt = GAToBetaConversion\<rparr> :: (nat, unit, unit, nat) convert"
  let ?m = "[\<lparr>mfcPath = [''Feature''], mfcValue = 7::nat\<rparr>]"
  let ?e = "Err ''bridge failed'' :: nat error"
  let ?uA = "(exampleResource failingGAtoAlpha emptyTable)\<lparr>ga := 7\<rparr>"
  let ?uB = "(exampleResource failingGAtoBeta emptyTable)\<lparr>ga := 7\<rparr>"
  have hypA: "conversions VersionGA = [?c1, ?c2]
      \<and> (0 AND postAccessSkipValidation \<noteq> 0
         \<or> checkPostAccess exampleApi (FieldTraits (typeTrait ?uA) VersionGA) (deref VersionGA ?uA) = None)
      \<and> copierDo exampleApi (copierOptions ?uA) (deref (dest ?c1) ?uA) (deref VersionGA ?uA)
          = (7, ?m, None)"
    by (simp add: run_ex failingGAtoAlpha_def failingGAtoBeta_def)
  have failA: "copyHelper ?c1 (assign (dest ?c1) 7 ?uA) = (?uA\<lparr>alpha := 7\<rparr>, Some ?e)"
    by (simp add: run_ex failingGAtoAlpha_def failingGAtoBeta_def)
  have resA: "postAccess exampleApi VersionGA 0 ?uA = (?uA\<lparr>alpha := 7\<rparr>, Some ?e)"
    using postAccess_hook_failure_is_partial
            [where srcVer = VersionGA and ?c1.0 = ?c1 and ?c2.0 = ?c2 and flags = 0
               and env = exampleApi and u = ?uA and ?y1.0 = 7 and ?m1.0 = ?m
               and ?u1.0 = "?uA\<lparr>alpha := 7\<rparr>" and err = ?e]
          hypA failA
    by blast
  have hypB: "conversions VersionGA = [?c1, ?c2]
      \<and> (0 AND postAccessSkipValidation \<noteq> 0
         \<or> checkPostAccess exampleApi (FieldTraits (typeTrait ?uB) VersionGA) (deref VersionGA ?uB) = None)
      \<and> copierDo exampleApi (copierOptions ?uB) (deref (dest ?c1) ?uB) (deref VersionGA ?uB)
          = (7, ?m, None)"
    by (simp add: run_ex failingGAtoAlpha_def failingGAtoBeta_def)
  let ?t = "(errors ?uB)(errorsAt ?c1 := \<lparr>missingFields = ?m\<rparr>)"
  let ?u2 = "assign (dest ?c2) 7 ((?uB\<lparr>alpha := 7\<rparr>)\<lparr>errors := ?t\<rparr>)"
  have failB: "copyHelper ?c1 (assign (dest ?c1) 7 ?uB) = (?uB\<lparr>alpha := 7\<rparr>, None)
      \<and> copierDo exampleApi (copierOptions ?uB) (deref (dest ?c2) ?uB)
            (deref VersionGA (?uB\<lparr>alpha := 7\<rparr>))
          = (7, ?m, None)
      \<and> copyHelper ?c2 (assign (dest ?c2) 7 ((?uB\<lparr>alpha := 7\<rparr>)\<lparr>errors := ?t\<rparr>)) = (?u2, Some ?e)"
    by (simp add: run_ex failingGAtoAlpha_def failingGAtoBeta_def)
  have resB: "postAccess exampleApi VersionGA 0 ?uB = (?u2, Some ?e)"
    using postAccess_hook_failure_is_partial
            [where srcVer = VersionGA and ?c1.0 = ?c1 and ?c2.0 = ?c2 and flags = 0
               and env = exampleApi and u = ?uB and ?y1.0 = 7 and ?m1.0 = ?m
               and ?u1.0 = "?uB\<lparr>alpha := 7\<rparr>" and err = ?e and ?y2.0 = 7 and ?m2.0 = ?m
               and ?u2.0 = ?u2]
          hypB failB
    by blast
  show ?thesis
    using resA resB by (simp add: exampleResource_def)
qed

text \<open>
  Claim C4, as stated, fails: the hook from GA into Alpha fails after the copier collected
  one lost field for Alpha. Alpha has the copied value, and the slot of the error table
  for that conversion is empty.
\<close>

theorem hook_failure_drops_collected_list_counterexample:
  "snd (Access exampleApi (\<lambda>y. 7) (exampleResource failingGAtoAlpha emptyTable))
     = Some (Err ''bridge failed'')
   \<and> alpha (fst (Access exampleApi (\<lambda>y. 7) (exampleResource failingGAtoAlpha emptyTable))) = 7
   \<and> fst (snd (copierDo exampleApi [] (alpha (exampleResource failingGAtoAlpha emptyTable)) 7))
       = [\<lparr>mfcPath = [''Feature''], mfcValue = 7\<rparr>]
   \<and> missingFields (errors (fst (Access exampleApi (\<lambda>y. 7)
         (exampleResource failingGAtoAlpha emptyTable))) GAToAlphaConversion) = []"
  by (simp add: run_ex failingGAtoAlpha_def)

section \<open>Set\<close>

lemmas set_ex =
  exampleApi_def exampleResource_def emptyTable_def BaseTypeTrait_def bridging_def
  failingCopy_def

text \<open>
  Claim C6. Set, SetAlpha and SetBeta do not depend on the validation: any other
  validation gives the same result. When the copier fails on \<open>src\<close>, the call returns its
  error with the named version as the copier left it, and nothing is propagated. Otherwise
  the named version holds what the copier made of it from \<open>src\<close>, and the call is the
  propagation out of that version under a validation that accepts every value. When the
  copier and the hooks succeed, the call returns no error; each destination holds what
  its hook made of the copier's output, the named version is as the hooks left it, and the
  two slots of the error table out of the named version hold the lists the copier
  collected on the way into the two destinations.
\<close>

theorem Set_copies_then_propagates_unvalidated:
  "Set (env\<lparr>checkPostAccess := chk\<rparr>) src u = Set env src u
   \<and> (copierDo env (copierOptions u) (ga u) src = (y0, m0, Some err)
      \<longrightarrow> Set env src u = (u\<lparr>ga := y0\<rparr>, Some err))
   \<and> (copierDo env (copierOptions u) (ga u) src = (y0, m0, None)
      \<longrightarrow> Set env src u
          = postAccess (env\<lparr>checkPostAccess := (\<lambda>traits v. None)\<rparr>) VersionGA 0 (u\<lparr>ga := y0\<rparr>))
   \<and> (copierDo env (copierOptions u) (ga u) src = (y0, m0, None)
      \<and> copierDo env (copierOptions u) (alpha u) y0 = (y1, m1, None)
      \<and> CopyHelperGAtoAlpha (typeTrait u) y1 y0 = (z1, s1, None)
      \<and> copierDo env (copierOptions u) (beta u) s1 = (y2, m2, None)
      \<and> CopyHelperGAtoBeta (typeTrait u) y2 s1 = (z2, s2, None)
      \<longrightarrow> Set env src u
          = (u\<lparr>ga := s2, alpha := z1, beta := z2, errors := (errors u)
                 (GAToAlphaConversion := \<lparr>missingFields = m1\<rparr>,
                  GAToBetaConversion := \<lparr>missingFields = m2\<rparr>)\<rparr>,
             None))
   \<and> SetAlpha (env\<lparr>checkPostAccess := chk\<rparr>) src u = SetAlpha env src u
   \<and> (copierDo env (copierOptions u) (alpha u) src = (y0, m0, Some err)
      \<longrightarrow> SetAlpha env src u = (u\<lparr>alpha := y0\<rparr>, Some err))
   \<and> (copierDo env (copierOptions u) (alpha u) src = (y0, m0, None)
      \<longrightarrow> SetAlpha env src u
          = postAccess (env\<lparr>checkPostAccess := (\<lambda>traits v. None)\<rparr>) VersionAlpha 0 (u\<lparr>alpha := y0\<rparr>))
   \<and> (copierDo env (copierOptions u) (alpha u) src = (y0, m0, None)
      \<and> copierDo env (copierOptions u) (ga u) y0 = (y1, m1, None)
      \<and> CopyHelperAlphaToGA (typeTrait u) y1 y0 = (z1, s1, None)
      \<and> copierDo env (copierOptions u) (beta u) s1 = (y2, m2, None)
      \<and> CopyHelperAlphaToBeta (typeTrait u) y2 s1 = (z2, s2, None)
      \<longrightarrow> SetAlpha env src u
          = (u\<lparr>ga := z1, alpha := s2, beta := z2, errors := (errors u)
                 (AlphaToGAConversion := \<lparr>missingFields = m1\<rparr>,
                  AlphaToBetaConversion := \<lparr>missingFields = m2\<rparr>)\<rparr>,
             None))
   \<and> SetBeta (env\<lparr>checkPostAccess := chk\<rparr>) src u = SetBeta env src u
   \<and> (copierDo env (copierOptions u) (beta u) src = (y0, m0, Some err)
      \<longrightarrow> SetBeta env src u = (u\<lparr>beta := y0\<rparr>, Some err))
   \<and> (copierDo env (copierOptions u) (beta u) src = (y0, m0, None)
      \<longrightarrow> SetBeta env src u
          = postAccess (env\<lparr>checkPostAccess := (\<lambda>traits v. None)\<rparr>) VersionBeta 0 (u\<lparr>beta := y0\<rparr>))
   \<and> (copierDo env (copierOptions u) (beta u) src = (y0, m0, None)
      \<and> copierDo env (copierOptions u) (ga u) y0 = (y1, m1, None)
      \<and> CopyHelperBetaToGA (typeTrait u) y1 y0 = (z1, s1, None)
      \<and> copierDo env (copierOptions u) (alpha u) s1 = (y2, m2, None)
      \<and> CopyHelperBetaToAlpha (typeTrait u) y2 s1 = (z2, s2, None)
      \<longrightarrow> SetBeta env src u
          = (u\<lparr>ga := z1, alpha := z2, beta := s2, errors := (errors u)
                 (BetaToGAConversion := \<lparr>missingFields = m1\<rparr>,
                  BetaToAlphaConversion := \<lparr>missingFields = m2\<rparr>)\<rparr>,
             None))"
proof -
  have c1: "Set (env\<lparr>checkPostAccess := chk\<rparr>) src u = Set env src u"
    by (simp add: Set_def SetAlpha_def SetBeta_def postAccess_skip
          runConversions_ignores_validation
          del: runConversions.simps conversions.simps split: prod.splits option.splits)
  have c2: "(copierDo env (copierOptions u) (ga u) src = (y0, m0, Some err)
      \<longrightarrow> Set env src u = (u\<lparr>ga := y0\<rparr>, Some err))"
    by (simp add: Set_def SetAlpha_def SetBeta_def postAccess_skip postAccess_accepting
          del: runConversions.simps conversions.simps)
  have c3: "(copierDo env (copierOptions u) (ga u) src = (y0, m0, None)
      \<longrightarrow> Set env src u
          = postAccess (env\<lparr>checkPostAccess := (\<lambda>traits v. None)\<rparr>) VersionGA 0 (u\<lparr>ga := y0\<rparr>))"
    by (simp add: Set_def SetAlpha_def SetBeta_def postAccess_skip postAccess_accepting
          del: runConversions.simps conversions.simps)
  have c4: "(copierDo env (copierOptions u) (ga u) src = (y0, m0, None)
      \<and> copierDo env (copierOptions u) (alpha u) y0 = (y1, m1, None)
      \<and> CopyHelperGAtoAlpha (typeTrait u) y1 y0 = (z1, s1, None)
      \<and> copierDo env (copierOptions u) (beta u) s1 = (y2, m2, None)
      \<and> CopyHelperGAtoBeta (typeTrait u) y2 s1 = (z2, s2, None)
      \<longrightarrow> Set env src u
          = (u\<lparr>ga := s2, alpha := z1, beta := z2, errors := (errors u)
                 (GAToAlphaConversion := \<lparr>missingFields = m1\<rparr>,
                  GAToBetaConversion := \<lparr>missingFields = m2\<rparr>)\<rparr>,
             None))"
    by (simp add: Set_def SetAlpha_def SetBeta_def postAccess_skip run_GA run_Alpha run_Beta
          del: runConversions.simps conversions.simps)
  have c5: "SetAlpha (env\<lparr>checkPostAccess := chk\<rparr>) src u = SetAlpha env src u"
    by (simp add: Set_def SetAlpha_def SetBeta_def postAccess_skip
          runConversions_ignores_validation
          del: runConversions.simps conversions.simps split: prod.splits option.splits)
  have c6: "(copierDo env (copierOptions u) (alpha u) src = (y0, m0, Some err)
      \<longrightarrow> SetAlpha env src u = (u\<lparr>alpha := y0\<rparr>, Some err))"
    by (simp add: Set_def SetAlpha_def SetBeta_def postAccess_skip postAccess_accepting
          del: runConversions.simps conversions.simps)
  have c7: "(copierDo env (copierOptions u) (alpha u) src = (y0, m0, None)
      \<longrightarrow> SetAlpha env src u
          = postAccess (env\<lparr>checkPostAccess := (\<lambda>traits v. None)\<rparr>) VersionAlpha 0 (u\<lparr>alpha := y0\<rparr>))"
    by (simp add: Set_def SetAlpha_def SetBeta_def postAccess_skip postAccess_accepting
          del: runConversions.simps conversions.simps)
  have c8: "(copierDo env (copierOptions u) (alpha u) src = (y0, m0, None)
      \<and> copierDo env (copierOptions u) (ga u) y0 = (y1, m1, None)
      \<and> CopyHelperAlphaToGA (typeTrait u) y1 y0 = (z1, s1, None)
      \<and> copierDo env (copierOptions u) (beta u) s1 = (y2, m2, None)
      \<and> CopyHelperAlphaToBeta (typeTrait u) y2 s1 = (z2, s2, None)
      \<longrightarrow> SetAlpha env src u
          = (u\<lparr>ga := z1, alpha := s2, beta := z2, errors := (errors u)
                 (AlphaToGAConversion := \<lparr>missingFields = m1\<rparr>,
                  AlphaToBetaConversion := \<lparr>missingFields = m2\<rparr>)\<rparr>,
             None))"
    by (simp add: Set_def SetAlpha_def SetBeta_def postAccess_skip run_GA run_Alpha run_Beta
          del: runConversions.simps conversions.simps)
  have c9: "SetBeta (env\<lparr>checkPostAccess := chk\<rparr>) src u = SetBeta env src u"
    by (simp add: Set_def SetAlpha_def SetBeta_def postAccess_skip
          runConversions_ignores_validation
          del: runConversions.simps conversions.simps split: prod.splits option.splits)
  have c10: "(copierDo env (copierOptions u) (beta u) src = (y0, m0, Some err)
      \<longrightarrow> SetBeta env src u = (u\<lparr>beta := y0\<rparr>, Some err))"
    by (simp add: Set_def SetAlpha_def SetBeta_def postAccess_skip postAccess_accepting
          del: runConversions.simps conversions.simps)
  have c11: "(copierDo env (copierOptions u) (beta u) src = (y0, m0, None)
      \<longrightarrow> SetBeta env src u
          = postAccess (env\<lparr>checkPostAccess := (\<lambda>traits v. None)\<rparr>) VersionBeta 0 (u\<lparr>beta := y0\<rparr>))"
    by (simp add: Set_def SetAlpha_def SetBeta_def postAccess_skip postAccess_accepting
          del: runConversions.simps conversions.simps)
  have c12: "(copierDo env (copierOptions u) (beta u) src = (y0, m0, None)
      \<and> copierDo env (copierOptions u) (ga u) y0 = (y1, m1, None)
      \<and> CopyHelperBetaToGA (typeTrait u) y1 y0 = (z1, s1, None)
      \<and> copierDo env (copierOptions u) (alpha u) s1 = (y2, m2, None)
      \<and> CopyHelperBetaToAlpha (typeTrait u) y2 s1 = (z2, s2, None)
      \<longrightarrow> SetBeta env src u
          = (u\<lparr>ga := z1, alpha := z2, beta := s2, errors := (errors u)
                 (BetaToGAConversion := \<lparr>missingFields = m1\<rparr>,
                  BetaToAlphaConversion := \<lparr>missingFields = m2\<rparr>)\<rparr>,
             None))"
    by (simp add: Set_def SetAlpha_def SetBeta_def postAccess_skip run_GA run_Alpha run_Beta
          del: runConversions.simps conversions.simps)
  show ?thesis
    using c1 c2 c3 c4 c5 c6 c7 c8 c9 c10 c11 c12 by (intro conjI)
qed

theorem Set_copies_then_propagates_unvalidated_witness:
  "checkPostAccess exampleApi () 50 = Some (Err ''value out of range'')
   \<and> Set failingCopy 50 (exampleResource (BaseTypeTrait ()) emptyTable) = ((exampleResource (BaseTypeTrait ()) emptyTable)\<lparr>ga := 0\<rparr>, Some (Err ''copy failed''))
   \<and> Set exampleApi 50 (exampleResource bridging emptyTable)
       = postAccess (exampleApi\<lparr>checkPostAccess := (\<lambda>traits v. None)\<rparr>) VersionGA 0 ((exampleResource bridging emptyTable)\<lparr>ga := 50\<rparr>)
   \<and> Set exampleApi 50 (exampleResource bridging emptyTable)
       = ((exampleResource bridging emptyTable)\<lparr>ga := 50, alpha := 51, beta := 52, errors := (errors (exampleResource bridging emptyTable))
              (GAToAlphaConversion := \<lparr>missingFields = [\<lparr>mfcPath = [''Feature''], mfcValue = 50\<rparr>]\<rparr>,
               GAToBetaConversion := \<lparr>missingFields = [\<lparr>mfcPath = [''Feature''], mfcValue = 50\<rparr>]\<rparr>)\<rparr>, None)
   \<and> SetAlpha failingCopy 50 (exampleResource (BaseTypeTrait ()) emptyTable) = ((exampleResource (BaseTypeTrait ()) emptyTable)\<lparr>alpha := 0\<rparr>, Some (Err ''copy failed''))
   \<and> SetAlpha exampleApi 50 (exampleResource bridging emptyTable)
       = postAccess (exampleApi\<lparr>checkPostAccess := (\<lambda>traits v. None)\<rparr>) VersionAlpha 0 ((exampleResource bridging emptyTable)\<lparr>alpha := 50\<rparr>)
   \<and> SetAlpha exampleApi 50 (exampleResource bridging emptyTable)
       = ((exampleResource bridging emptyTable)\<lparr>ga := 53, alpha := 50, beta := 54, errors := (errors (exampleResource bridging emptyTable))
              (AlphaToGAConversion := \<lparr>missingFields = [\<lparr>mfcPath = [''Feature''], mfcValue = 50\<rparr>]\<rparr>,
               AlphaToBetaConversion := \<lparr>missingFields = [\<lparr>mfcPath = [''Feature''], mfcValue = 50\<rparr>]\<rparr>)\<rparr>, None)
   \<and> SetBeta failingCopy 50 (exampleResource (BaseTypeTrait ()) emptyTable) = ((exampleResource (BaseTypeTrait ()) emptyTable)\<lparr>beta := 0\<rparr>, Some (Err ''copy failed''))
   \<and> SetBeta exampleApi 50 (exampleResource bridging emptyTable)
       = postAccess (exampleApi\<lparr>checkPostAccess := (\<lambda>traits v. None)\<rparr>) VersionBeta 0 ((exampleResource bridging emptyTable)\<lparr>beta := 50\<rparr>)
   \<and> SetBeta exampleApi 50 (exampleResource bridging emptyTable)
       = ((exampleResource bridging emptyTable)\<lparr>ga := 55, alpha := 56, beta := 50, errors := (errors (exampleResource bridging emptyTable))
              (BetaToGAConversion := \<lparr>missingFields = [\<lparr>mfcPath = [''Feature''], mfcValue = 50\<rparr>]\<rparr>,
               BetaToAlphaConversion := \<lparr>missingFields = [\<lparr>mfcPath = [''Feature''], mfcValue = 50\<rparr>]\<rparr>)\<rparr>, None)"
proof -
  have v: "checkPostAccess exampleApi () 50 = Some (Err ''value out of range'')"
    by (simp add: exampleApi_def)
  have h1: "copierDo failingCopy (copierOptions (exampleResource (BaseTypeTrait ()) emptyTable)) (ga (exampleResource (BaseTypeTrait ()) emptyTable)) 50 = (0, [], Some (Err ''copy failed''))"
    by (simp add: set_ex)
  have r1: "Set failingCopy 50 (exampleResource (BaseTypeTrait ()) emptyTable) = ((exampleResource (BaseTypeTrait ()) emptyTable)\<lparr>ga := 0\<rparr>, Some (Err ''copy failed''))"
    by (rule mp[OF conjunct1[OF conjunct2[OF Set_copies_then_propagates_unvalidated[where env = failingCopy and src = 50 and u = "exampleResource (BaseTypeTrait ()) emptyTable" and ?y0.0 = 0 and ?m0.0 = "[]" and err = "Err ''copy failed''"]]] h1])
  have h2: "copierDo exampleApi (copierOptions (exampleResource bridging emptyTable)) (ga (exampleResource bridging emptyTable)) 50 = (50, [\<lparr>mfcPath = [''Feature''], mfcValue = 50\<rparr>], None)"
    by (simp add: set_ex)
  have r2: "Set exampleApi 50 (exampleResource bridging emptyTable)
       = postAccess (exampleApi\<lparr>checkPostAccess := (\<lambda>traits v. None)\<rparr>) VersionGA 0 ((exampleResource bridging emptyTable)\<lparr>ga := 50\<rparr>)"
    by (rule mp[OF conjunct1[OF conjunct2[OF conjunct2[OF Set_copies_then_propagates_unvalidated[where env = exampleApi and src = 50 and u = "exampleResource bridging emptyTable" and ?y0.0 = 50 and ?m0.0 = "[\<lparr>mfcPath = [''Feature''], mfcValue = 50\<rparr>]"]]]] h2])
  have h3: "copierDo exampleApi (copierOptions (exampleResource bridging emptyTable)) (ga (exampleResource bridging emptyTable)) 50 = (50, [\<lparr>mfcPath = [''Feature''], mfcValue = 50\<rparr>], None) \<and> copierDo exampleApi (copierOptions (exampleResource bridging emptyTable)) (alpha (exampleResource bridging emptyTable)) 50 = (50, [\<lparr>mfcPath = [''Feature''], mfcValue = 50\<rparr>], None) \<and> CopyHelperGAtoAlpha (typeTrait (exampleResource bridging emptyTable)) 50 50 = (51, 50, None) \<and> copierDo exampleApi (copierOptions (exampleResource bridging emptyTable)) (beta (exampleResource bridging emptyTable)) 50 = (50, [\<lparr>mfcPath = [''Feature''], mfcValue = 50\<rparr>], None) \<and> CopyHelperGAtoBeta (typeTrait (exampleResource bridging emptyTable)) 50 50 = (52, 50, None)"
    by (simp add: set_ex)
  have r3: "Set exampleApi 50 (exampleResource bridging emptyTable)
       = ((exampleResource bridging emptyTable)\<lparr>ga := 50, alpha := 51, beta := 52, errors := (errors (exampleResource bridging emptyTable))
              (GAToAlphaConversion := \<lparr>missingFields = [\<lparr>mfcPath = [''Feature''], mfcValue = 50\<rparr>]\<rparr>,
               GAToBetaConversion := \<lparr>missingFields = [\<lparr>mfcPath = [''Feature''], mfcValue = 50\<rparr>]\<rparr>)\<rparr>, None)"
    by (rule mp[OF conjunct1[OF conjunct2[OF conjunct2[OF conjunct2[OF Set_copies_then_propagates_unvalidated[where env = exampleApi and src = 50 and u = "exampleResource bridging emptyTable" and ?y0.0 = 50 and ?m0.0 = "[\<lparr>mfcPath = [''Feature''], mfcValue = 50\<rparr>]" and ?y1.0 = 50 and ?m1.0 = "[\<lparr>mfcPath = [''Feature''], mfcValue = 50\<rparr>]" and ?z1.0 = 51 and ?s1.0 = 50 and ?y2.0 = 50 and ?m2.0 = "[\<lparr>mfcPath = [''Feature''], mfcValue = 50\<rparr>]" and ?z2.0 = 52 and ?s2.0 = 50]]]]] h3])
  have h5: "copierDo failingCopy (copierOptions (exampleResource (BaseTypeTrait ()) emptyTable)) (alpha (exampleResource (BaseTypeTrait ()) emptyTable)) 50 = (0, [], Some (Err ''copy failed''))"
    by (simp add: set_ex)
  have r5: "SetAlpha failingCopy 50 (exampleResource (BaseTypeTrait ()) emptyTable) = ((exampleResource (BaseTypeTrait ()) emptyTable)\<lparr>alpha := 0\<rparr>, Some (Err ''copy failed''))"
    by (rule mp[OF conjunct1[OF conjunct2[OF conjunct2[OF conjunct2[OF conjunct2[OF conjunct2[OF Set_copies_then_propagates_unvalidated[where env = failingCopy and src = 50 and u = "exampleResource (BaseTypeTrait ()) emptyTable" and ?y0.0 = 0 and ?m0.0 = "[]" and err = "Err ''copy failed''"]]]]]]] h5])
  have h6: "copierDo exampleApi (copierOptions (exampleResource bridging emptyTable)) (alpha (exampleResource bridging emptyTable)) 50 = (50, [\<lparr>mfcPath = [''Feature''], mfcValue = 50\<rparr>], None)"
    by (simp add: set_ex)
  have r6: "SetAlpha exampleApi 50 (exampleResource bridging emptyTable)
       = postAccess (exampleApi\<lparr>checkPostAccess := (\<lambda>traits v. None)\<rparr>) VersionAlpha 0 ((exampleResource bridging emptyTable)\<lparr>alpha := 50\<rparr>)"
    by (rule mp[OF conjunct1[OF conjunct2[OF conjunct2[OF conjunct2[OF conjunct2[OF conjunct2[OF conjunct2[OF Set_copies_then_propagates_unvalidated[where env = exampleApi and src = 50 and u = "exampleResource bridging emptyTable" and ?y0.0 = 50 and ?m0.0 = "[\<lparr>mfcPath = [''Feature''], mfcValue = 50\<rparr>]"]]]]]]]] h6])
  have h7: "copierDo exampleApi (copierOptions (exampleResource bridging emptyTable)) (alpha (exampleResource bridging emptyTable)) 50 = (50, [\<lparr>mfcPath = [''Feature''], mfcValue = 50\<rparr>], None) \<and> copierDo exampleApi (copierOptions (exampleResource bridging emptyTable)) (ga (exampleResource bridging emptyTable)) 50 = (50, [\<lparr>mfcPath = [''Feature''], mfcValue = 50\<rparr>], None) \<and> CopyHelperAlphaToGA (typeTrait (exampleResource bridging emptyTable)) 50 50 = (53, 50, None) \<and> copierDo exampleApi (copierOptions (exampleResource bridging emptyTable)) (beta (exampleResource bridging emptyTable)) 50 = (50, [\<lparr>mfcPath = [''Feature''], mfcValue = 50\<rparr>], None) \<and> CopyHelperAlphaToBeta (typeTrait (exampleResource bridging emptyTable)) 50 50 = (54, 50, None)"
    by (simp add: set_ex)
  have r7: "SetAlpha exampleApi 50 (exampleResource bridging emptyTable)
       = ((exampleResource bridging emptyTable)\<lparr>ga := 53, alpha := 50, beta := 54, errors := (errors (exampleResource bridging emptyTable))
              (AlphaToGAConversion := \<lparr>missingFields = [\<lparr>mfcPath = [''Feature''], mfcValue = 50\<rparr>]\<rparr>,
               AlphaToBetaConversion := \<lparr>missingFields = [\<lparr>mfcPath = [''Feature''], mfcValue = 50\<rparr>]\<rparr>)\<rparr>, None)"
    by (rule mp[OF conjunct1[OF conjunct2[OF conjunct2[OF conjunct2[OF conjunct2[OF conjunct2[OF conjunct2[OF conjunct2[OF Set_copies_then_propagates_unvalidated[where env = exampleApi and src = 50 and u = "exampleResource bridging emptyTable" and ?y0.0 = 50 and ?m0.0 = "[\<lparr>mfcPath = [''Feature''], mfcValue = 50\<rparr>]" and ?y1.0 = 50 and ?m1.0 = "[\<lparr>mfcPath = [''Feature''], mfcValue = 50\<rparr>]" and ?z1.0 = 53 and ?s1.0 = 50 and ?y2.0 = 50 and ?m2.0 = "[\<lparr>mfcPath = [''Feature''], mfcValue = 50\<rparr>]" and ?z2.0 = 54 and ?s2.0 = 50]]]]]]]]] h7])
  have h9: "copierDo failingCopy (copierOptions (exampleResource (BaseTypeTrait ()) emptyTable)) (beta (exampleResource (BaseTypeTrait ()) emptyTable)) 50 = (0, [], Some (Err ''copy failed''))"
    by (simp add: set_ex)
  have r9: "SetBeta failingCopy 50 (exampleResource (BaseTypeTrait ()) emptyTable) = ((exampleResource (BaseTypeTrait ()) emptyTable)\<lparr>beta := 0\<rparr>, Some (Err ''copy failed''))"
    by (rule mp[OF conjunct1[OF conjunct2[OF conjunct2[OF conjunct2[OF conjunct2[OF conjunct2[OF conjunct2[OF conjunct2[OF conjunct2[OF conjunct2[OF Set_copies_then_propagates_unvalidated[where env = failingCopy and src = 50 and u = "exampleResource (BaseTypeTrait ()) emptyTable" and ?y0.0 = 0 and ?m0.0 = "[]" and err = "Err ''copy failed''"]]]]]]]]]]] h9])
  have h10: "copierDo exampleApi (copierOptions (exampleResource bridging emptyTable)) (beta (exampleResource bridging emptyTable)) 50 = (50, [\<lparr>mfcPath = [''Feature''], mfcValue = 50\<rparr>], None)"
    by (simp add: set_ex)
  have r10: "SetBeta exampleApi 50 (exampleResource bridging emptyTable)
       = postAccess (exampleApi\<lparr>checkPostAccess := (\<lambda>traits v. None)\<rparr>) VersionBeta 0 ((exampleResource bridging emptyTable)\<lparr>beta := 50\<rparr>)"
    by (rule mp[OF conjunct1[OF conjunct2[OF conjunct2[OF conjunct2[OF conjunct2[OF conjunct2[OF conjunct2[OF conjunct2[OF conjunct2[OF conjunct2[OF conjunct2[OF Set_copies_then_propagates_unvalidated[where env = exampleApi and src = 50 and u = "exampleResource bridging emptyTable" and ?y0.0 = 50 and ?m0.0 = "[\<lparr>mfcPath = [''Feature''], mfcValue = 50\<rparr>]"]]]]]]]]]]]] h10])
  have h11: "copierDo exampleApi (copierOptions (exampleResource bridging emptyTable)) (beta (exampleResource bridging emptyTable)) 50 = (50, [\<lparr>mfcPath = [''Feature''], mfcValue = 50\<rparr>], None) \<and> copierDo exampleApi (copierOptions (exampleResource bridging emptyTable)) (ga (exampleResource bridging emptyTable)) 50 = (50, [\<lparr>mfcPath = [''Feature''], mfcValue = 50\<rparr>], None) \<and> CopyHelperBetaToGA (typeTrait (exampleResource bridging emptyTable)) 50 50 = (55, 50, None) \<and> copierDo exampleApi (copierOptions (exampleResource bridging emptyTable)) (alpha (exampleResource bridging emptyTable)) 50 = (50, [\<lparr>mfcPath = [''Feature''], mfcValue = 50\<rparr>], None) \<and> CopyHelperBetaToAlpha (typeTrait (exampleResource bridging emptyTable)) 50 50 = (56, 50, None)"
    by (simp add: set_ex)
  have r11: "SetBeta exampleApi 50 (exampleResource bridging emptyTable)
       = ((exampleResource bridging emptyTable)\<lparr>ga := 55, alpha := 56, beta := 50, errors := (errors (exampleResource bridging emptyTable))
              (BetaToGAConversion := \<lparr>missingFields = [\<lparr>mfcPath = [''Feature''], mfcValue = 50\<rparr>]\<rparr>,
               BetaToAlphaConversion := \<lparr>missingFields = [\<lparr>mfcPath = [''Feature''], mfcValue = 50\<rparr>]\<rparr>)\<rparr>, None)"
    by (rule mp[OF conjunct2[OF conjunct2[OF conjunct2[OF conjunct2[OF conjunct2[OF conjunct2[OF conjunct2[OF conjunct2[OF conjunct2[OF conjunct2[OF conjunct2[OF Set_copies_then_propagates_unvalidated[where env = exampleApi and src = 50 and u = "exampleResource bridging emptyTable" and ?y0.0 = 50 and ?m0.0 = "[\<lparr>mfcPath = [''Feature''], mfcValue = 50\<rparr>]" and ?y1.0 = 50 and ?m1.0 = "[\<lparr>mfcPath = [''Feature''], mfcValue = 50\<rparr>]" and ?z1.0 = 55 and ?s1.0 = 50 and ?y2.0 = 50 and ?m2.0 = "[\<lparr>mfcPath = [''Feature''], mfcValue = 50\<rparr>]" and ?z2.0 = 56 and ?s2.0 = 50]]]]]]]]]]]] h11])
  show ?thesis
    using v r1 r2 r3 r5 r6 r7 r9 r10 r11 by (intro conjI)
qed

section \<open>Freeze\<close>

lemma fillOther_same: "fillOther env ver ver u = (u, None)"
  by (simp add: fillOther_def)

lemma fillOther_other:
  "ver \<noteq> v \<Longrightarrow>
     fillOther env ver v u =
       (assign v (fst (fillNullAndForceSend env (FieldTraits (typeTrait u) v) (deref v u))) u,
        snd (fillNullAndForceSend env (FieldTraits (typeTrait u) v) (deref v u)))"
  by (simp add: fillOther_def split: prod.splits)

lemma all_Version:
  "(\<forall>v. P v) = (P VersionGA \<and> P VersionAlpha \<and> P VersionBeta)"
  by (metis Version.exhaust)

text \<open>
  Claim C5, as the code has it. Freeze returns the error of ImpliedVersion, with the
  resource untouched, when ImpliedVersion fails; it returns a frozen resource exactly when
  ImpliedVersion succeeds and the fill step succeeds on both other versions; and then the
  frozen resource records the implied version and is the resource itself, the implied
  version's representation and the error table are as before, and each of the other two
  representations is what the fill step made of it under that version's field traits.
\<close>

theorem Freeze_fills_the_other_two_versions:
  "(snd (ImpliedVersion u) = Some err \<longrightarrow> Freeze env u = (u, Inl err))
   \<and> (\<not> isl (snd (Freeze env u))) =
       (snd (ImpliedVersion u) = None
        \<and> (\<forall>v. v \<noteq> fst (ImpliedVersion u) \<longrightarrow>
              snd (fillNullAndForceSend env (FieldTraits (typeTrait u) v) (deref v u)) = None))
   \<and> (snd (Freeze env u) = Inr fr \<longrightarrow>
        frozen_ver fr = fst (ImpliedVersion u)
        \<and> frozen_x fr = fst (Freeze env u)
        \<and> deref (frozen_ver fr) (fst (Freeze env u)) = deref (frozen_ver fr) u
        \<and> (\<forall>v. v \<noteq> frozen_ver fr \<longrightarrow>
              deref v (fst (Freeze env u))
                = fst (fillNullAndForceSend env (FieldTraits (typeTrait u) v) (deref v u)))
        \<and> errors (fst (Freeze env u)) = errors u)"
proof -
  obtain ver ierr where iv: "ImpliedVersion u = (ver, ierr)" by (metis surj_pair)
  show ?thesis
  proof (cases ierr)
    case (Some e)
    then show ?thesis using iv by (simp add: Freeze_def)
  next
    case None
    show ?thesis
      using iv None
      by (cases ver)
         (auto simp: Freeze_def fillOther_same fillOther_other all_Version
               split: prod.splits option.splits)
  qed
qed

theorem Freeze_fills_the_other_two_versions_witness:
  "snd (ImpliedVersion (exampleResource (BaseTypeTrait ())
          (emptyTable(GAToAlphaConversion := lost, GAToBetaConversion := lost))))
     = Some (IndeterminantVersion None
         (Some \<lparr>MissingFields = [\<lparr>Context = GAToAlphaConversion, Path = [''Feature''], Value = 1\<rparr>]\<rparr>)
         (Some \<lparr>MissingFields = [\<lparr>Context = GAToBetaConversion, Path = [''Feature''], Value = 1\<rparr>]\<rparr>))
   \<and> snd (Freeze exampleApi (exampleResource (BaseTypeTrait ())
          (emptyTable(GAToAlphaConversion := lost, GAToBetaConversion := lost))))
     = Inl (IndeterminantVersion None
         (Some \<lparr>MissingFields = [\<lparr>Context = GAToAlphaConversion, Path = [''Feature''], Value = 1\<rparr>]\<rparr>)
         (Some \<lparr>MissingFields = [\<lparr>Context = GAToBetaConversion, Path = [''Feature''], Value = 1\<rparr>]\<rparr>))
   \<and> \<not> isl (snd (Freeze exampleApi (exampleResource (BaseTypeTrait ())
          (emptyTable(AlphaToGAConversion := lost, AlphaToBetaConversion := lost)))))
   \<and> frozen_ver (projr (snd (Freeze exampleApi (exampleResource (BaseTypeTrait ())
          (emptyTable(AlphaToGAConversion := lost, AlphaToBetaConversion := lost))))))
       = VersionAlpha
   \<and> ga (fst (Freeze exampleApi (exampleResource (BaseTypeTrait ())
          (emptyTable(AlphaToGAConversion := lost, AlphaToBetaConversion := lost))))) = 100
   \<and> alpha (fst (Freeze exampleApi (exampleResource (BaseTypeTrait ())
          (emptyTable(AlphaToGAConversion := lost, AlphaToBetaConversion := lost))))) = 0
   \<and> beta (fst (Freeze exampleApi (exampleResource (BaseTypeTrait ())
          (emptyTable(AlphaToGAConversion := lost, AlphaToBetaConversion := lost))))) = 100"
proof -
  let ?uS = "exampleResource (BaseTypeTrait ())
          (emptyTable(GAToAlphaConversion := lost, GAToBetaConversion := lost))"
  let ?uA = "exampleResource (BaseTypeTrait ())
          (emptyTable(AlphaToGAConversion := lost, AlphaToBetaConversion := lost))"
  let ?E = "IndeterminantVersion None
         (Some \<lparr>MissingFields = [\<lparr>Context = GAToAlphaConversion, Path = [''Feature''], Value = 1::nat\<rparr>]\<rparr>)
         (Some \<lparr>MissingFields = [\<lparr>Context = GAToBetaConversion, Path = [''Feature''], Value = 1\<rparr>]\<rparr>)"
  have hS: "snd (ImpliedVersion ?uS) = Some ?E"
    by (simp add: ImpliedVersion_def ex)
  have rS: "Freeze exampleApi ?uS = (?uS, Inl ?E)"
    using Freeze_fills_the_other_two_versions[where u = ?uS and err = ?E and env = exampleApi] hS
    by blast
  have ivA: "ImpliedVersion ?uA = (VersionAlpha, None)"
    by (simp add: ImpliedVersion_def ex)
  have fills: "\<And>traits y. fillNullAndForceSend exampleApi traits y = (y + 100, None)"
    by (simp add: exampleApi_def)
  have okA: "\<not> isl (snd (Freeze exampleApi ?uA))"
    using Freeze_fills_the_other_two_versions[where u = ?uA and env = exampleApi] ivA fills
    by simp
  then obtain fr where frA: "snd (Freeze exampleApi ?uA) = Inr fr"
    by (cases "snd (Freeze exampleApi ?uA)") simp_all
  from Freeze_fills_the_other_two_versions[where u = ?uA and env = exampleApi and fr = fr] frA
  have conc: "frozen_ver fr = fst (ImpliedVersion ?uA)"
    "deref (frozen_ver fr) (fst (Freeze exampleApi ?uA)) = deref (frozen_ver fr) ?uA"
    "\<forall>v. v \<noteq> frozen_ver fr \<longrightarrow> deref v (fst (Freeze exampleApi ?uA))
        = fst (fillNullAndForceSend exampleApi (FieldTraits (typeTrait ?uA) v) (deref v ?uA))"
    by blast+
  have ver: "frozen_ver fr = VersionAlpha" using conc(1) ivA by simp
  have a: "alpha (fst (Freeze exampleApi ?uA)) = 0"
    using conc(2) ver by (simp add: exampleResource_def)
  have g: "ga (fst (Freeze exampleApi ?uA)) = 100"
    using conc(3)[rule_format, of VersionGA] ver fills by (simp add: exampleResource_def)
  have b: "beta (fst (Freeze exampleApi ?uA)) = 100"
    using conc(3)[rule_format, of VersionBeta] ver fills by (simp add: exampleResource_def)
  show ?thesis using hS rS okA frA ver a g b by simp
qed

text \<open>
  Claim C5, as stated, fails: ImpliedVersion succeeds and Freeze fails, with the error of
  the fill step.
\<close>

theorem Freeze_fails_on_fill_error_counterexample:
  "snd (ImpliedVersion (exampleResource (BaseTypeTrait ()) emptyTable)) = None
   \<and> snd (Freeze failingFill (exampleResource (BaseTypeTrait ()) emptyTable))
       = Inl (Err ''fill failed'')"
  by (simp add: Freeze_def fillOther_def failingFill_def ImpliedVersion_def ex run_ex)

section \<open>NewResource\<close>

lemma setName_skips:
  "nameNotOfStringKind v \<Longrightarrow> setName rid v = Inr v"
  by (auto simp: nameNotOfStringKind_def setName_def split: reflectValue.splits option.splits)

lemma NewResource_cases:
  "NewResource traits ga0 alpha0 beta0 rid tt =
     (case setName rid ga0 of
        Inl p \<Rightarrow> Inl p
      | Inr g \<Rightarrow>
          (case setName rid alpha0 of
             Inl p \<Rightarrow> Inl p
           | Inr a \<Rightarrow>
               (case setName rid beta0 of
                  Inl p \<Rightarrow> Inl p
                | Inr b \<Rightarrow>
                    Inr \<lparr>copierOptions = [],
                         typeTrait = (case tt of None \<Rightarrow> BaseTypeTrait traits | Some t \<Rightarrow> t),
                         ga = g, alpha = a, beta = b, resourceID = rid,
                         errors = (\<lambda>cc. \<lparr>missingFields = []\<rparr>)\<rparr>)))"
  by (simp add: NewResource_def Let_def split: sum.splits)

lemma FieldByName_setFieldValue:
  "FieldByName fs n = Some ft \<Longrightarrow>
     FieldByName (setFieldValue fs n y) n = Some (ft\<lparr>fieldValue := y\<rparr>)"
  by (induction fs) (auto split: if_splits)

lemma setName_seeds:
  "FieldByName fs ''Name'' = Some ft \<Longrightarrow> fieldType ft = Predeclared KString \<Longrightarrow>
     rid = Some r \<Longrightarrow> Key r = Some k \<Longrightarrow>
     setName rid (StructVal fs) = Inr (StructVal (setFieldValue fs ''Name'' (VString (Name k))))"
  by (simp add: setName_def)

text \<open>
  Claim C7, as the code has it. A representation whose \<^verbatim>\<open>Name\<close> field is not of string
  kind is skipped: \<^verbatim>\<open>setName\<close> returns it as it is. A representation whose \<^verbatim>\<open>Name\<close>
  field is a \<^verbatim>\<open>string\<close> is seeded: \<^verbatim>\<open>setName\<close> returns it with that field holding
  the name of the identity. NewResource aborts exactly when \<^verbatim>\<open>setName\<close> aborts on one
  of the three representations, so never on account of a field of another kind; otherwise
  it returns the resource that holds the three representations as \<^verbatim>\<open>setName\<close> returned
  them, the one with such a field as it was given.
\<close>

theorem NewResource_skips_Name_of_other_kind:
  "(nameNotOfStringKind v \<longrightarrow> setName rid v = Inr v)
   \<and> (FieldByName fs ''Name'' = Some ft \<and> fieldType ft = Predeclared KString
      \<and> rid = Some r \<and> Key r = Some k
      \<longrightarrow> setName rid (StructVal fs)
            = Inr (StructVal (setFieldValue fs ''Name'' (VString (Name k))))
          \<and> FieldByName (setFieldValue fs ''Name'' (VString (Name k))) ''Name''
            = Some (ft\<lparr>fieldValue := VString (Name k)\<rparr>))
   \<and> isl (NewResource traits ga0 alpha0 beta0 rid tt)
       = (isl (setName rid ga0) \<or> isl (setName rid alpha0) \<or> isl (setName rid beta0))
   \<and> (setName rid ga0 = Inr g \<and> setName rid alpha0 = Inr a \<and> setName rid beta0 = Inr b
      \<longrightarrow> NewResource traits ga0 alpha0 beta0 rid tt
          = Inr \<lparr>copierOptions = [],
                 typeTrait = (case tt of None \<Rightarrow> BaseTypeTrait traits | Some t \<Rightarrow> t),
                 ga = g, alpha = a, beta = b, resourceID = rid,
                 errors = (\<lambda>cc. \<lparr>missingFields = []\<rparr>)\<rparr>)
   \<and> (NewResource traits ga0 alpha0 beta0 rid tt = Inr res \<longrightarrow>
        (nameNotOfStringKind ga0 \<longrightarrow> ga res = ga0)
        \<and> (nameNotOfStringKind alpha0 \<longrightarrow> alpha res = alpha0)
        \<and> (nameNotOfStringKind beta0 \<longrightarrow> beta res = beta0))"
proof -
  have c1: "nameNotOfStringKind v \<longrightarrow> setName rid v = Inr v"
    by (simp add: setName_skips)
  have c2: "FieldByName fs ''Name'' = Some ft \<and> fieldType ft = Predeclared KString
      \<and> rid = Some r \<and> Key r = Some k
      \<longrightarrow> setName rid (StructVal fs)
            = Inr (StructVal (setFieldValue fs ''Name'' (VString (Name k))))
          \<and> FieldByName (setFieldValue fs ''Name'' (VString (Name k))) ''Name''
            = Some (ft\<lparr>fieldValue := VString (Name k)\<rparr>)"
    by (simp add: setName_seeds FieldByName_setFieldValue)
  have c3: "isl (NewResource traits ga0 alpha0 beta0 rid tt)
       = (isl (setName rid ga0) \<or> isl (setName rid alpha0) \<or> isl (setName rid beta0))"
    by (simp add: NewResource_cases split: sum.splits)
  have c4: "setName rid ga0 = Inr g \<and> setName rid alpha0 = Inr a \<and> setName rid beta0 = Inr b
      \<longrightarrow> NewResource traits ga0 alpha0 beta0 rid tt
          = Inr \<lparr>copierOptions = [],
                 typeTrait = (case tt of None \<Rightarrow> BaseTypeTrait traits | Some t \<Rightarrow> t),
                 ga = g, alpha = a, beta = b, resourceID = rid,
                 errors = (\<lambda>cc. \<lparr>missingFields = []\<rparr>)\<rparr>"
    by (simp add: NewResource_cases)
  have c5: "NewResource traits ga0 alpha0 beta0 rid tt = Inr res \<longrightarrow>
        (nameNotOfStringKind ga0 \<longrightarrow> ga res = ga0)
        \<and> (nameNotOfStringKind alpha0 \<longrightarrow> alpha res = alpha0)
        \<and> (nameNotOfStringKind beta0 \<longrightarrow> beta res = beta0)"
    using setName_skips[of ga0 rid] setName_skips[of alpha0 rid] setName_skips[of beta0 rid]
    by (auto simp: NewResource_cases split: sum.splits)
  show ?thesis using c1 c2 c3 c4 c5 by (intro conjI)
qed

theorem NewResource_skips_Name_of_other_kind_witness:
  "nameNotOfStringKind numberedStruct
   \<and> setName fooID numberedStruct = Inr numberedStruct
   \<and> setName fooID (namedStruct []) = Inr (namedStruct ''foo'')
   \<and> FieldByName
        (setFieldValue
           [\<lparr>fieldName = ''Name'', fieldType = Predeclared KString, fieldValue = VString []\<rparr>,
            \<lparr>fieldName = ''Feature'', fieldType = Predeclared KBool, fieldValue = VBool False\<rparr>]
           ''Name'' (VString ''foo'')) ''Name''
       = Some \<lparr>fieldName = ''Name'', fieldType = Predeclared KString,
               fieldValue = VString ''foo''\<rparr>
   \<and> \<not> isl (NewResource () numberedStruct (namedStruct []) numberedStruct fooID
              (None :: (reflectValue, unit, nat) TypeTrait option)
            :: string + (reflectValue, unit, unit, nat) resource)
   \<and> (NewResource () numberedStruct (namedStruct []) numberedStruct fooID
              (None :: (reflectValue, unit, nat) TypeTrait option)
            :: string + (reflectValue, unit, unit, nat) resource)
       = Inr \<lparr>copierOptions = [], typeTrait = BaseTypeTrait (),
              ga = numberedStruct, alpha = namedStruct ''foo'', beta = numberedStruct,
              resourceID = fooID, errors = (\<lambda>cc. \<lparr>missingFields = []\<rparr>)\<rparr>
   \<and> alpha (projr (NewResource () (namedStruct []) numberedStruct numberedStruct fooID
              (None :: (reflectValue, unit, nat) TypeTrait option)
            :: string + (reflectValue, unit, unit, nat) resource)) = numberedStruct
   \<and> ga (projr (NewResource () (namedStruct []) numberedStruct numberedStruct fooID
              (None :: (reflectValue, unit, nat) TypeTrait option)
            :: string + (reflectValue, unit, unit, nat) resource)) = namedStruct ''foo''"
proof -
  let ?tt = "None :: (reflectValue, unit, nat) TypeTrait option"
  let ?fs = "[\<lparr>fieldName = ''Name'', fieldType = Predeclared KString, fieldValue = VString []\<rparr>,
              \<lparr>fieldName = ''Feature'', fieldType = Predeclared KBool, fieldValue = VBool False\<rparr>]"
  let ?ft = "\<lparr>fieldName = ''Name'', fieldType = Predeclared KString, fieldValue = VString []\<rparr>"
  let ?N1 = "NewResource () numberedStruct (namedStruct []) numberedStruct fooID ?tt
               :: string + (reflectValue, unit, unit, nat) resource"
  let ?N2 = "NewResource () (namedStruct []) numberedStruct numberedStruct fooID ?tt
               :: string + (reflectValue, unit, unit, nat) resource"
  let ?R2 = "\<lparr>copierOptions = [], typeTrait = BaseTypeTrait (),
              ga = namedStruct ''foo'', alpha = numberedStruct, beta = numberedStruct,
              resourceID = fooID, errors = (\<lambda>cc. \<lparr>missingFields = []\<rparr>)\<rparr>
              :: (reflectValue, unit, unit, nat) resource"
  note t1 = NewResource_skips_Name_of_other_kind
      [where rid = fooID and traits = "()" and tt = ?tt and v = numberedStruct
         and fs = ?fs and ft = ?ft and r = "\<lparr>Key = Some \<lparr>Name = ''foo''\<rparr>\<rparr>"
         and k = "\<lparr>Name = ''foo''\<rparr>"
         and ?ga0.0 = numberedStruct and ?alpha0.0 = "namedStruct []" and ?beta0.0 = numberedStruct
         and g = numberedStruct and a = "namedStruct ''foo''" and b = numberedStruct]
  note t2 = NewResource_skips_Name_of_other_kind
      [where rid = fooID and traits = "()" and tt = ?tt
         and ?ga0.0 = "namedStruct []" and ?alpha0.0 = numberedStruct and ?beta0.0 = numberedStruct
         and g = "namedStruct ''foo''" and a = numberedStruct and b = numberedStruct
         and res = ?R2]
  have n: "nameNotOfStringKind numberedStruct"
    by (simp add: nameNotOfStringKind_def numberedStruct_def)
  have k: "setName fooID numberedStruct = Inr numberedStruct"
    by (rule mp[OF conjunct1[OF t1] n])
  have hs: "FieldByName ?fs ''Name'' = Some ?ft \<and> fieldType ?ft = Predeclared KString
      \<and> fooID = Some \<lparr>Key = Some \<lparr>Name = ''foo''\<rparr>\<rparr>
      \<and> Key \<lparr>Key = Some \<lparr>Name = ''foo''\<rparr>\<rparr> = Some \<lparr>Name = ''foo''\<rparr>"
    by (simp add: fooID_def)
  note seeded = mp[OF conjunct1[OF conjunct2[OF t1]] hs]
  have s: "setName fooID (namedStruct []) = Inr (namedStruct ''foo'')"
    using conjunct1[OF seeded] by (simp add: namedStruct_def)
  have f: "FieldByName (setFieldValue ?fs ''Name'' (VString ''foo'')) ''Name''
      = Some \<lparr>fieldName = ''Name'', fieldType = Predeclared KString, fieldValue = VString ''foo''\<rparr>"
    using conjunct2[OF seeded] by simp
  have ok1: "\<not> isl ?N1"
    using conjunct1[OF conjunct2[OF conjunct2[OF t1]]] by (simp add: k s)
  have h1: "setName fooID numberedStruct = Inr numberedStruct
      \<and> setName fooID (namedStruct []) = Inr (namedStruct ''foo'')
      \<and> setName fooID numberedStruct = Inr numberedStruct"
    using k s by simp
  have e1: "?N1 = Inr \<lparr>copierOptions = [], typeTrait = BaseTypeTrait (),
              ga = numberedStruct, alpha = namedStruct ''foo'', beta = numberedStruct,
              resourceID = fooID, errors = (\<lambda>cc. \<lparr>missingFields = []\<rparr>)\<rparr>"
    using mp[OF conjunct1[OF conjunct2[OF conjunct2[OF conjunct2[OF t1]]]] h1] by simp
  have h2: "setName fooID (namedStruct []) = Inr (namedStruct ''foo'')
      \<and> setName fooID numberedStruct = Inr numberedStruct
      \<and> setName fooID numberedStruct = Inr numberedStruct"
    using k s by simp
  have e2: "?N2 = Inr ?R2"
    using mp[OF conjunct1[OF conjunct2[OF conjunct2[OF conjunct2[OF t2]]]] h2] by simp
  note c2 = mp[OF conjunct2[OF conjunct2[OF conjunct2[OF conjunct2[OF t2]]]] e2]
  have r2: "alpha ?R2 = numberedStruct"
    by (rule mp[OF conjunct1[OF conjunct2[OF c2]] n])
  have p2: "alpha (projr ?N2) = numberedStruct \<and> ga (projr ?N2) = namedStruct ''foo''"
    using r2 by (simp add: e2)
  show ?thesis
    using n k s f ok1 e1 conjunct1[OF p2] conjunct2[OF p2] by (intro conjI)
qed

text \<open>
  Claim C7, as stated, fails: the GA representation declares \<^verbatim>\<open>Name\<close> as a number.
  NewResource returns a resource, GA unseeded, Alpha and Beta seeded with foo.
\<close>

theorem NewResource_completes_with_unseeded_Name_counterexample:
  "nameNotOfStringKind numberedStruct
   \<and> (NewResource () numberedStruct (namedStruct []) (namedStruct []) fooID None
        :: string + (reflectValue, unit, unit, nat) resource)
     = Inr \<lparr>copierOptions = [], typeTrait = BaseTypeTrait (),
            ga = numberedStruct, alpha = namedStruct ''foo'', beta = namedStruct ''foo'',
            resourceID = fooID, errors = (\<lambda>cc. \<lparr>missingFields = []\<rparr>)\<rparr>"
  by (simp add: NewResource_def setName_def nameNotOfStringKind_def numberedStruct_def
        namedStruct_def fooID_def)

section \<open>The diagram\<close>













end
